theory Spec2Isabelle
  imports Main "HOL-Library.Word" "HOL-Library.AList"
begin

unbundle bit_operations_syntax

section \<open>Data model of the forwarding daemon (ccnd\_private.h)\<close>

text \<open>
  C \<open>unsigned\<close> and \<open>int\<close> values that are only compared, masked or wrapped are 32-bit
  words.  A hash table is an association list from keys to entries; a pointer to a hash
  table entry is the key of the entry.  The key of a name prefix entry is the byte range
  \<open>comps[0] .. comps[i]\<close> of a message, that is the encoded first \<open>i\<close> name components:
  the model writes that key as the list of those components.  Memory allocation always
  succeeds.
\<close>

type_synonym u32 = "32 word"
type_synonym byte = "8 word"
type_synonym bytes = "byte list"
type_synonym name = "bytes list"

definition FACESLOTBITS :: nat where
  "FACESLOTBITS = 18"

definition MAXFACES :: u32 where
  "MAXFACES = push_bit FACESLOTBITS 1 - 1"

datatype cq_delay_class = CCN_CQ_ASAP | CCN_CQ_NORMAL | CCN_CQ_SLOW

record content_queue =
  min_usec :: u32
  rand_usec :: u32
  send_queue :: "u32 list"
  sender :: bool

record face =
  flags :: u32
  faceid :: u32
  recvcount :: u32
  q :: "cq_delay_class \<Rightarrow> content_queue option"
  pending_interests :: int

definition CCN_FACE_LINK :: u32 where "CCN_FACE_LINK = push_bit 0 1"
definition CCN_FACE_DGRAM :: u32 where "CCN_FACE_DGRAM = push_bit 1 1"
definition CCN_FACE_GG :: u32 where "CCN_FACE_GG = push_bit 2 1"
definition CCN_FACE_LOCAL :: u32 where "CCN_FACE_LOCAL = push_bit 3 1"
definition CCN_FACE_INET :: u32 where "CCN_FACE_INET = push_bit 4 1"
definition CCN_FACE_MCAST :: u32 where "CCN_FACE_MCAST = push_bit 5 1"
definition CCN_FACE_INET6 :: u32 where "CCN_FACE_INET6 = push_bit 6 1"
definition CCN_FACE_DC :: u32 where "CCN_FACE_DC = push_bit 7 1"
definition CCN_FACE_NOSEND :: u32 where "CCN_FACE_NOSEND = push_bit 8 1"
definition CCN_FACE_UNDECIDED :: u32 where "CCN_FACE_UNDECIDED = push_bit 9 1"
definition CCN_FACE_PERMANENT :: u32 where "CCN_FACE_PERMANENT = push_bit 10 1"

lemmas face_flag_defs =
  CCN_FACE_LINK_def CCN_FACE_DGRAM_def CCN_FACE_GG_def CCN_FACE_LOCAL_def
  CCN_FACE_INET_def CCN_FACE_MCAST_def CCN_FACE_INET6_def CCN_FACE_DC_def
  CCN_FACE_NOSEND_def CCN_FACE_UNDECIDED_def CCN_FACE_PERMANENT_def

text \<open>
  A content entry: \<open>key\<close> is the hash key (the first \<open>key_size\<close> bytes of the stored
  object), \<open>ext\<close> the rest of the object (the extdata of the hash table), \<open>c_name\<close> the
  components that the \<open>comps\<close> offsets delimit (\<open>ncomps\<close> is their number plus one).
\<close>

record content_entry =
  accession :: u32
  c_name :: name
  c_flags :: u32
  key :: bytes
  ext :: bytes

definition CCN_CONTENT_ENTRY_SLOWSEND :: u32 where "CCN_CONTENT_ENTRY_SLOWSEND = 1"
definition CCN_CONTENT_ENTRY_STALE :: u32 where "CCN_CONTENT_ENTRY_STALE = 2"
definition CCN_CONTENT_ENTRY_PRECIOUS :: u32 where "CCN_CONTENT_ENTRY_PRECIOUS = 4"

record ccn_forwarding =
  f_faceid :: u32
  f_flags :: u32
  expires :: int

definition CCN_FORW_ACTIVE :: u32 where "CCN_FORW_ACTIVE = 1"
definition CCN_FORW_CHILD_INHERIT :: u32 where "CCN_FORW_CHILD_INHERIT = 2"
definition CCN_FORW_ADVERTISE :: u32 where "CCN_FORW_ADVERTISE = 4"
definition CCN_FORW_PUBMASK :: u32 where
  "CCN_FORW_PUBMASK = CCN_FORW_ACTIVE OR CCN_FORW_CHILD_INHERIT OR CCN_FORW_ADVERTISE"
definition CCN_FORW_REFRESHED :: u32 where "CCN_FORW_REFRESHED = push_bit 16 1"

lemmas forw_flag_defs =
  CCN_FORW_ACTIVE_def CCN_FORW_CHILD_INHERIT_def CCN_FORW_ADVERTISE_def
  CCN_FORW_PUBMASK_def CCN_FORW_REFRESHED_def

text \<open>
  A name prefix entry.  \<open>propagating_head\<close> is \<open>None\<close> while no sentinel is allocated;
  otherwise it holds the nonces of the propagating entries linked after the sentinel, in
  list order.  \<open>forward_to\<close> and \<open>outbound\<close> are index buffers, \<open>None\<close> for a null pointer.
  \<open>parent\<close> is the key of the next-shorter prefix.
\<close>

record nameprefix_entry =
  propagating_head :: "bytes list option"
  forward_to :: "u32 list option"
  forwarding :: "ccn_forwarding list"
  parent :: "name option"
  children :: int
  fgen :: u32
  src :: u32
  osrc :: u32
  usec :: u32

record propagating_entry =
  outbound :: "u32 list option"
  interest_msg :: "bytes option"
  pe_size :: nat
  pe_flags :: u32
  pe_faceid :: u32
  pe_usec :: int

definition CCN_PR_UNSENT :: u32 where "CCN_PR_UNSENT = 1"
definition CCN_PR_WAIT1 :: u32 where "CCN_PR_WAIT1 = 2"
definition CCN_PR_STUFFED1 :: u32 where "CCN_PR_STUFFED1 = 4"

text \<open>The scheduler queue: each event has a delay, a callback with its data, and \<open>evint\<close>.\<close>

datatype callback =
  Do_propagate bytes
  | Expire_content
  | Content_sender u32 cq_delay_class

record scheduled_event =
  ev_usec :: int
  ev_action :: callback
  ev_int :: u32

record ccnd_handle =
  faces_by_faceid :: "face option list"
  face_gen :: u32
  face_rover :: u32
  forward_to_gen :: u32
  nameprefix_tab :: "(name \<times> nameprefix_entry) list"
  propagating_tab :: "(bytes \<times> propagating_entry) list"
  content_tab :: "(bytes \<times> content_entry) list"
  accession_ctr :: u32
  min_stale :: u32
  max_stale :: u32
  capacity :: "64 word"
  sched :: "scheduled_event list"
  seed :: nat
  oldformatcontent :: nat
  oldformatcontentgrumble :: nat
  oldformatinterests :: nat
  oldformatinterestgrumble :: nat
  content_dups_recvd :: nat
  interests_accepted :: nat
  interests_dropped :: nat
  flood :: bool
  interest_faceid :: u32
  data_pause_microsec :: u32
  log :: "string list"

text \<open>
  \<open>ccnd_msg\<close> and \<open>ccnd_debug_ccnb\<close> (ccnd\_msg.c) format a line for the log.  The model
  records the tag of every call that is not guarded by a bit of \<open>h->debug\<close>.
\<close>

definition ccnd_msg :: "ccnd_handle \<Rightarrow> string \<Rightarrow> ccnd_handle" where
  "ccnd_msg h s = h\<lparr>log := log h @ [s]\<rparr>"

text \<open>
  \<open>nrand48\<close> of the C library: the 48-bit linear congruential generator of POSIX; the
  result is the upper 31 bits of the new state.
\<close>

definition nrand48 :: "nat \<Rightarrow> nat \<times> nat" where
  "nrand48 s = (let s' = (25214903917 * s + 11) mod 2 ^ 48 in (s' div 2 ^ 17, s'))"

text \<open>
  The index buffer operations used by the daemon (ccn\_indexbuf.c), on the list of the
  first \<open>n\<close> elements.
\<close>

definition ccn_indexbuf_set_insert :: "u32 list \<Rightarrow> u32 \<Rightarrow> u32 list" where
  "ccn_indexbuf_set_insert x v = (if v \<in> set x then x else x @ [v])"

definition ccn_indexbuf_append_element :: "u32 list \<Rightarrow> u32 \<Rightarrow> u32 list" where
  "ccn_indexbuf_append_element x v = x @ [v]"

definition ccn_indexbuf_member :: "u32 list \<Rightarrow> u32 \<Rightarrow> bool" where
  "ccn_indexbuf_member x v = (v \<in> set x)"

definition ccn_indexbuf_move_to_end :: "u32 list \<Rightarrow> u32 \<Rightarrow> u32 list" where
  "ccn_indexbuf_move_to_end x v = (if v \<in> set x then remove1 v x @ [v] else x)"

text \<open>
  \<open>ccn_indexbuf_remove_element\<close> takes one instance of \<open>v\<close> out of the buffer: the last
  element moves into the place of the last instance found.
\<close>

fun find_last :: "u32 list \<Rightarrow> u32 \<Rightarrow> nat option" where
  "find_last [] v = None"
| "find_last (a # x) v =
     (case find_last x v of
        Some i \<Rightarrow> Some (Suc i)
      | None \<Rightarrow> if a = v then Some 0 else None)"

definition ccn_indexbuf_remove_element :: "u32 list \<Rightarrow> u32 \<Rightarrow> u32 list" where
  "ccn_indexbuf_remove_element x v =
     (case find_last x v of None \<Rightarrow> x | Some i \<Rightarrow> butlast (x[i := last x]))"

section \<open>Face table\<close>

definition face_from_faceid :: "ccnd_handle \<Rightarrow> u32 \<Rightarrow> face option" where
  "face_from_faceid h fid =
     (let slot = unat (fid AND MAXFACES) in
      if slot < length (faces_by_faceid h) then
        (case faces_by_faceid h ! slot of
           None \<Rightarrow> None
         | Some face \<Rightarrow> if faceid face \<noteq> fid then None else Some face)
      else None)"

text \<open>A write through a \<open>struct face *\<close>: the face lives in its slot of the array.\<close>

definition face_update :: "ccnd_handle \<Rightarrow> u32 \<Rightarrow> (face \<Rightarrow> face) \<Rightarrow> ccnd_handle" where
  "face_update h fid g =
     (let slot = unat (fid AND MAXFACES) in
      h\<lparr>faces_by_faceid := (faces_by_faceid h)[slot := map_option g (faces_by_faceid h ! slot)]\<rparr>)"

section \<open>Name prefix table and forwarding information\<close>

definition npe_update ::
  "ccnd_handle \<Rightarrow> name \<Rightarrow> (nameprefix_entry \<Rightarrow> nameprefix_entry) \<Rightarrow> ccnd_handle" where
  "npe_update h k g = h\<lparr>nameprefix_tab := AList.map_entry k g (nameprefix_tab h)\<rparr>"

text \<open>
  One round of the loop of \<open>nameprefix_seek\<close>: \<open>hashtb_seek\<close> of the prefix \<open>k\<close>, and the
  initialisation of a new entry.  \<open>par\<close> is the entry of the previous round.
\<close>

definition nameprefix_seek_step :: "name \<Rightarrow> ccnd_handle \<times> name option \<Rightarrow> ccnd_handle \<times> name option" where
  "nameprefix_seek_step k hp =
     (let h = fst hp; par = snd hp in
      case map_of (nameprefix_tab h) k of
        Some npe \<Rightarrow> (h, Some k)
      | None \<Rightarrow>
          (case (case par of None \<Rightarrow> None
                 | Some pk \<Rightarrow> map_option (Pair pk) (map_of (nameprefix_tab h) pk)) of
             Some (pk, p) \<Rightarrow>
               (let npe = \<lparr>propagating_head = None, forward_to = None, forwarding = [],
                           parent = Some pk, children = 0, fgen = forward_to_gen h - 1,
                           src = src p, osrc = osrc p, usec = usec p\<rparr>;
                    h1 = npe_update h pk (\<lambda>e. e\<lparr>children := children e + 1\<rparr>)
                in (h1\<lparr>nameprefix_tab := nameprefix_tab h1 @ [(k, npe)]\<rparr>, Some k))
           | None \<Rightarrow>
               (let r = nrand48 (seed h);
                    npe = \<lparr>propagating_head = None, forward_to = None, forwarding = [],
                           parent = None, children = 0, fgen = forward_to_gen h - 1,
                           src = NOT 0, osrc = NOT 0,
                           usec = word_of_nat (fst r mod 4096 + 8192)\<rparr>
                in (h\<lparr>nameprefix_tab := nameprefix_tab h @ [(k, npe)], seed := snd r\<rparr>,
                    Some k))))"

text \<open>
  \<open>nameprefix_seek\<close>: creates the entry of the first \<open>ncomps\<close> components of \<open>nm\<close> with
  all of its parents; the result is the new state and \<open>e->data\<close> (\<open>None\<close> for \<open>-1\<close>).
  \<open>comps->n\<close> is \<open>length nm + 1\<close>.
\<close>

definition nameprefix_seek :: "ccnd_handle \<Rightarrow> name \<Rightarrow> nat \<Rightarrow> ccnd_handle \<times> name option" where
  "nameprefix_seek h nm ncomps =
     (if ncomps + 1 > length nm + 1 then (h, None)
      else fold nameprefix_seek_step (map (\<lambda>i. take i nm) [0..<ncomps + 1]) (h, None))"

text \<open>\<open>seek_forwarding\<close> on the entry \<open>npe\<close>: the forwarding list with the record sought
  present, and the index of that record.\<close>

fun find_forwarding :: "ccn_forwarding list \<Rightarrow> u32 \<Rightarrow> nat option" where
  "find_forwarding [] fid = None"
| "find_forwarding (f # fs) fid =
     (if f_faceid f = fid then Some 0 else map_option Suc (find_forwarding fs fid))"

definition seek_forwarding :: "nameprefix_entry \<Rightarrow> u32 \<Rightarrow> nameprefix_entry \<times> nat" where
  "seek_forwarding npe fid =
     (case find_forwarding (forwarding npe) fid of
        Some i \<Rightarrow> (npe, i)
      | None \<Rightarrow>
          (npe\<lparr>forwarding := \<lparr>f_faceid = fid, f_flags = 0, expires = 0x7FFFFFFF\<rparr> # forwarding npe\<rparr>, 0))"

text \<open>\<open>ccnd_reg_prefix\<close>; the result is \<open>None\<close> for a negative return value.\<close>

definition ccnd_reg_prefix ::
  "ccnd_handle \<Rightarrow> name \<Rightarrow> nat \<Rightarrow> u32 \<Rightarrow> u32 \<Rightarrow> int \<Rightarrow> ccnd_handle \<times> name option" where
  "ccnd_reg_prefix h nm ncomps fid flgs expir =
     (if flgs AND (CCN_FORW_CHILD_INHERIT OR CCN_FORW_ACTIVE OR CCN_FORW_ADVERTISE) \<noteq> flgs
      then (h, None)
      else if face_from_faceid h fid = None then (h, None)
      else
        (case nameprefix_seek h nm ncomps of
           (h1, None) \<Rightarrow> (h1, None)
         | (h1, Some k) \<Rightarrow>
             (npe_update (h1\<lparr>forward_to_gen := forward_to_gen h1 + 1\<rparr>) k
                (\<lambda>npe. let nf = seek_forwarding npe fid; npe' = fst nf; i = snd nf in
                   npe'\<lparr>forwarding := (forwarding npe')[i :=
                     (forwarding npe' ! i)\<lparr>expires := expir,
                        f_flags := f_flags (forwarding npe' ! i) OR
                          (CCN_FORW_REFRESHED OR CCN_FORW_ACTIVE OR flgs)\<rparr>]\<rparr>),
              Some k)))"

text \<open>
  The request of \<open>ccnd_req_prefixreg\<close> as \<open>ccn_forwarding_entry_parse\<close> (reg\_mgmt) hands
  it over: \<open>name_prefix\<close> is \<open>None\<close> for a null pointer, \<open>Some None\<close> for a buffer that
  \<open>ccn_name_split\<close> rejects and \<open>Some (Some nm)\<close> for the name \<open>nm\<close>; \<open>fe_ccnd_id\<close> holds
  \<open>ccnd_id_size\<close> bytes.
\<close>

record ccn_forwarding_entry =
  action :: "string option"
  name_prefix :: "name option option"
  fe_ccnd_id :: bytes
  fe_faceid :: u32
  fe_flags :: int
  lifetime :: int

text \<open>
  \<open>ccnd_req_prefixreg\<close>.  The argument is \<open>None\<close> when the ContentObject or the
  forwarding entry in it does not parse.  The result is the forwarding entry that is
  encoded into the reply, \<open>None\<close> for a null result.
\<close>

definition ccnd_req_prefixreg ::
  "bytes \<Rightarrow> ccnd_handle \<Rightarrow> ccn_forwarding_entry option \<Rightarrow> ccnd_handle \<times> ccn_forwarding_entry option" where
  "ccnd_req_prefixreg ccnd_id h req =
     (case req of
        None \<Rightarrow> (h, None)
      | Some fe \<Rightarrow>
          (if action fe \<noteq> Some ''prefixreg'' then (h, None)
           else if name_prefix fe = None then (h, None)
           else if length (fe_ccnd_id fe) = 32 \<and> fe_ccnd_id fe \<noteq> ccnd_id then (h, None)
           else if length (fe_ccnd_id fe) \<noteq> 32 \<and> length (fe_ccnd_id fe) \<noteq> 0 then (h, None)
           else
             (case face_from_faceid h (fe_faceid fe) of
                None \<Rightarrow> (h, None)
              | Some face \<Rightarrow>
                  (case face_from_faceid h (interest_faceid h) of
                     None \<Rightarrow> (h, None)
                   | Some reqface \<Rightarrow>
                       (if flags reqface AND CCN_FACE_GG = 0 then (h, None)
                        else
                          (let fe1 =
                             (if lifetime fe < 0 then fe\<lparr>lifetime := 60\<rparr>
                              else if lifetime fe > 3600 \<and> lifetime fe < 2 ^ 30
                                then fe\<lparr>lifetime := 300\<rparr>
                              else fe)
                           in (case name_prefix fe1 of
                                 Some (Some nm) \<Rightarrow>
                                   (let fe2 = (if fe_flags fe1 < 0 then fe1\<lparr>fe_flags := 0\<rparr> else fe1)
                                    in (case ccnd_reg_prefix h nm (length nm) (faceid face)
                                               (word_of_int (fe_flags fe2)) (lifetime fe2) of
                                          (h1, None) \<Rightarrow> (h1, None)
                                        | (h1, Some k) \<Rightarrow>
                                            (h1, Some (fe2\<lparr>action := None, fe_ccnd_id := ccnd_id\<rparr>))))
                               | _ \<Rightarrow> (h, None))))))))"

section \<open>Forwarding: the cached outbound set\<close>

text \<open>
  \<open>update_inherited\<close> follows the \<open>parent\<close> pointers up to a null pointer.  In the model
  the walk may not return (\<open>None\<close>): on a parent key without an entry, or on a cycle of
  parent keys.
\<close>

partial_function (option) update_inherited ::
  "ccnd_handle \<Rightarrow> name option \<Rightarrow> u32 list \<Rightarrow> u32 list option" where
  "update_inherited h npe x =
     (case npe of
        None \<Rightarrow> Some x
      | Some k \<Rightarrow>
          (case map_of (nameprefix_tab h) k of
             None \<Rightarrow> None
           | Some e \<Rightarrow>
               update_inherited h (parent e)
                 (fold (\<lambda>f x.
                    if f_flags f AND (CCN_FORW_CHILD_INHERIT OR CCN_FORW_ACTIVE) =
                         (CCN_FORW_CHILD_INHERIT OR CCN_FORW_ACTIVE) \<and>
                       face_from_faceid h (f_faceid f) \<noteq> None
                    then ccn_indexbuf_set_insert x (f_faceid f) else x)
                  (forwarding e) x)))"

text \<open>\<open>update_forward_to\<close> on the entry with key \<open>k\<close>.\<close>

definition update_forward_to :: "ccnd_handle \<Rightarrow> name \<Rightarrow> ccnd_handle option" where
  "update_forward_to h k =
     (case map_of (nameprefix_tab h) k of
        None \<Rightarrow> None
      | Some npe \<Rightarrow>
          (let x = fold (\<lambda>f x.
                     if f_flags f AND CCN_FORW_ACTIVE \<noteq> 0 \<and>
                        face_from_faceid h (f_faceid f) \<noteq> None
                     then ccn_indexbuf_set_insert x (f_faceid f) else x)
                   (forwarding npe) []
           in case update_inherited h (parent npe) x of
                None \<Rightarrow> None
              | Some x' \<Rightarrow>
                  Some (npe_update h k
                    (\<lambda>e. e\<lparr>forward_to := (if x' = [] then None else Some x'),
                            fgen := forward_to_gen h\<rparr>))))"

text \<open>
  The fields of \<open>ccn_parsed_interest\<close> that the daemon reads, for a message that
  \<open>ccn_parse_interest\<close> accepts; \<open>pi_name\<close> holds the components that \<open>comps\<close> delimits.
\<close>

record parsed_interest =
  magic :: int
  prefix_comps :: nat
  orderpref :: u32
  answerfrom :: u32
  scope :: int
  offset_B_Nonce :: nat
  offset_E_Nonce :: nat
  offset_B_OTHER :: nat
  offset_E :: nat
  pi_name :: name

definition CCN_AOK_CS :: u32 where "CCN_AOK_CS = 1"
definition CCN_AOK_STALE :: u32 where "CCN_AOK_STALE = 4"
definition CCN_AOK_EXPIRE :: u32 where "CCN_AOK_EXPIRE = 16"

text \<open>
  \<open>get_outbound_faces\<close>; \<open>from\<close> is the faceid of the originating face (\<open>None\<close> for a
  null pointer), \<open>k\<close> the key of \<open>npe\<close>.
\<close>

definition get_outbound_faces ::
  "ccnd_handle \<Rightarrow> u32 option \<Rightarrow> parsed_interest \<Rightarrow> name \<Rightarrow> (ccnd_handle \<times> u32 list) option" where
  "get_outbound_faces h from pi k =
     (case map_of (nameprefix_tab h) k of
        None \<Rightarrow> None
      | Some npe0 \<Rightarrow>
          (case (if fgen npe0 \<noteq> forward_to_gen h then update_forward_to h k else Some h) of
             None \<Rightarrow> None
           | Some h1 \<Rightarrow>
               (case map_of (nameprefix_tab h1) k of
                  None \<Rightarrow> None
                | Some npe \<Rightarrow>
                    (if scope pi = 0 \<or> forward_to npe = None \<or> forward_to npe = Some []
                     then Some (h1, [])
                     else
                       (let checkmask = (if scope pi = 1 then CCN_FACE_GG else 0) in
                        Some (h1,
                          fold (\<lambda>fid x.
                            case face_from_faceid h1 fid of
                              None \<Rightarrow> x
                            | Some face \<Rightarrow>
                                if Some (faceid face) \<noteq> from \<and>
                                   flags face AND checkmask = checkmask
                                then ccn_indexbuf_append_element x (faceid face) else x)
                          (rev (the (forward_to npe))) []))))))"

text \<open>The loop of \<open>nameprefix_longest_match\<close> over the component counts \<open>is\<close>.\<close>

fun longest_match_loop :: "ccnd_handle \<Rightarrow> name \<Rightarrow> nat list \<Rightarrow> nat \<Rightarrow> nat" where
  "longest_match_loop h nm [] answer = answer"
| "longest_match_loop h nm (i # is) answer =
     (case map_of (nameprefix_tab h) (take i nm) of
        None \<Rightarrow> answer
      | Some npe \<Rightarrow> if children npe = 0 then i else longest_match_loop h nm is i)"

definition nameprefix_longest_match :: "ccnd_handle \<Rightarrow> name \<Rightarrow> nat \<Rightarrow> nat option" where
  "nameprefix_longest_match h nm ncomps =
     (if ncomps + 1 > length nm + 1 then None
      else Some (longest_match_loop h nm [0..<ncomps + 1] 0))"

text \<open>
  The shape of the table that \<open>nameprefix_seek\<close> builds: the parent of an entry is the
  entry of the prefix that is one component shorter, and the root has no parent.
\<close>

definition parents_linked :: "(name \<times> nameprefix_entry) list \<Rightarrow> bool" where
  "parents_linked tab =
     (\<forall>(k, e) \<in> set tab.
        parent e = (if k = [] then None else Some (butlast k)) \<and>
        (k \<noteq> [] \<longrightarrow> map_of tab (butlast k) \<noteq> None))"

text \<open>
  The faces that the forwarding records of the entry \<open>k\<close> contribute to a cached outbound
  set: \<open>active_here\<close> for the entry itself (records with the ACTIVE flag on a live face),
  \<open>inherited_here\<close> for an entry above it (records with both ACTIVE and CHILD\_INHERIT
  on a live face).
\<close>

definition active_here :: "ccnd_handle \<Rightarrow> name \<Rightarrow> u32 set" where
  "active_here h k =
     {f_faceid f |f e. map_of (nameprefix_tab h) k = Some e \<and> f \<in> set (forwarding e) \<and>
        f_flags f AND CCN_FORW_ACTIVE \<noteq> 0 \<and> face_from_faceid h (f_faceid f) \<noteq> None}"

definition inherited_here :: "ccnd_handle \<Rightarrow> name \<Rightarrow> u32 set" where
  "inherited_here h k =
     {f_faceid f |f e. map_of (nameprefix_tab h) k = Some e \<and> f \<in> set (forwarding e) \<and>
        f_flags f AND (CCN_FORW_CHILD_INHERIT OR CCN_FORW_ACTIVE) =
          (CCN_FORW_CHILD_INHERIT OR CCN_FORW_ACTIVE) \<and>
        face_from_faceid h (f_faceid f) \<noteq> None}"

section \<open>Content queues of a face\<close>

definition choose_face_delay :: "ccnd_handle \<Rightarrow> face \<Rightarrow> cq_delay_class \<Rightarrow> u32" where
  "choose_face_delay h face c =
     (let shift = (if c = CCN_CQ_SLOW then 2 else 0 :: nat) in
      if c = CCN_CQ_ASAP then 1
      else if flags face AND CCN_FACE_LINK \<noteq> 0 then push_bit shift (data_pause_microsec h)
      else if flags face AND CCN_FACE_LOCAL \<noteq> 0 then 5
      else if flags face AND CCN_FACE_MCAST \<noteq> 0 then push_bit shift (data_pause_microsec h)
      else if flags face AND CCN_FACE_GG \<noteq> 0 then push_bit shift 100
      else if flags face AND CCN_FACE_DGRAM \<noteq> 0 then push_bit shift 500
      else 100)"

definition content_queue_create :: "ccnd_handle \<Rightarrow> face \<Rightarrow> cq_delay_class \<Rightarrow> content_queue" where
  "content_queue_create h face c =
     (let usec = choose_face_delay h face c in
      \<lparr>min_usec = usec, rand_usec = 2 * usec, send_queue = [], sender = False\<rparr>)"

definition choose_content_delay_class :: "ccnd_handle \<Rightarrow> u32 \<Rightarrow> u32 \<Rightarrow> cq_delay_class" where
  "choose_content_delay_class h fid content_flags =
     (case face_from_faceid h fid of
        None \<Rightarrow> CCN_CQ_ASAP
      | Some face \<Rightarrow>
          if flags face AND (CCN_FACE_LINK OR CCN_FACE_MCAST) \<noteq> 0 then
            (if content_flags AND CCN_CONTENT_ENTRY_SLOWSEND \<noteq> 0 then CCN_CQ_SLOW
             else CCN_CQ_NORMAL)
          else if flags face AND CCN_FACE_DGRAM \<noteq> 0 then CCN_CQ_NORMAL
          else if flags face AND (CCN_FACE_GG OR CCN_FACE_LOCAL) \<noteq> 0 then CCN_CQ_ASAP
          else CCN_CQ_NORMAL)"

text \<open>\<open>randomize_content_delay\<close>: the delay and the new state of the generator.\<close>

definition randomize_content_delay :: "ccnd_handle \<Rightarrow> content_queue \<Rightarrow> u32 \<times> nat" where
  "randomize_content_delay h cq =
     (let usec = min_usec cq + rand_usec cq in
      if usec < 2 then (1, seed h)
      else if usec \<le> 20 \<or> rand_usec cq < 2 then (usec, seed h)
      else
        (let r = nrand48 (seed h);
             usec' = min_usec cq + word_of_nat (fst r mod unat (rand_usec cq))
         in if usec' < 2 then (1, snd r) else (usec', snd r)))"

text \<open>
  \<open>face_send_queue_insert\<close> for the face with id \<open>fid\<close> (a null face when there is no
  such face) and the content entry \<open>content\<close>.
\<close>

definition face_send_queue_insert :: "ccnd_handle \<Rightarrow> u32 \<Rightarrow> content_entry \<Rightarrow> ccnd_handle" where
  "face_send_queue_insert h fid content =
     (case face_from_faceid h fid of
        None \<Rightarrow> h
      | Some face \<Rightarrow>
          if flags face AND CCN_FACE_NOSEND \<noteq> 0 then h
          else
            (let c = choose_content_delay_class h (faceid face) (c_flags content);
                 cq = (case q face c of None \<Rightarrow> content_queue_create h face c | Some cq0 \<Rightarrow> cq0);
                 h1 = face_update h fid (\<lambda>f. f\<lparr>q := (q f)(c := Some cq)\<rparr>)
             in if list_ex (\<lambda>k. k \<noteq> c \<and>
                       (case q face k of None \<Rightarrow> False
                        | Some cqk \<Rightarrow> ccn_indexbuf_member (send_queue cqk) (accession content)))
                     [CCN_CQ_ASAP, CCN_CQ_NORMAL, CCN_CQ_SLOW]
                then h1
                else
                  (let cq1 = cq\<lparr>send_queue := ccn_indexbuf_set_insert (send_queue cq) (accession content)\<rparr>
                   in if sender cq1 then face_update h1 fid (\<lambda>f. f\<lparr>q := (q f)(c := Some cq1)\<rparr>)
                      else
                        (let d = randomize_content_delay h1 cq1;
                             h2 = face_update h1 fid
                                    (\<lambda>f. f\<lparr>q := (q f)(c := Some (cq1\<lparr>sender := True\<rparr>))\<rparr>)
                         in h2\<lparr>seed := snd d,
                               sched := sched h2 @
                                 [\<lparr>ev_usec = uint (fst d), ev_action = Content_sender (faceid face) c,
                                   ev_int = faceid face\<rparr>]\<rparr>))))"

section \<open>Pending interest table\<close>

text \<open>\<open>CCN_INTEREST_LIFETIME_MICROSEC\<close> of ccn/ccn.h: four seconds.\<close>

definition CCN_INTEREST_LIFETIME_MICROSEC :: int where
  "CCN_INTEREST_LIFETIME_MICROSEC = 4000000"

definition pe_update ::
  "ccnd_handle \<Rightarrow> bytes \<Rightarrow> (propagating_entry \<Rightarrow> propagating_entry) \<Rightarrow> ccnd_handle" where
  "pe_update h nonce g = h\<lparr>propagating_tab := AList.map_entry nonce g (propagating_tab h)\<rparr>"

definition finished_propagating :: "propagating_entry \<Rightarrow> propagating_entry" where
  "finished_propagating pe = pe\<lparr>outbound := None\<rparr>"

text \<open>
  \<open>consume\<close> of the propagating entry with key \<open>nonce\<close>.  Unlinking the entry takes its
  nonce out of the list of the prefix entry that holds it.
\<close>

definition consume :: "ccnd_handle \<Rightarrow> bytes \<Rightarrow> ccnd_handle" where
  "consume h nonce =
     (case map_of (propagating_tab h) nonce of
        None \<Rightarrow> h
      | Some pe \<Rightarrow>
          (let h1 = (if interest_msg pe \<noteq> None then
                       (case face_from_faceid h (pe_faceid pe) of
                          None \<Rightarrow> h
                        | Some face \<Rightarrow>
                            face_update h (pe_faceid pe)
                              (\<lambda>f. f\<lparr>pending_interests := pending_interests f - 1\<rparr>))
                     else h);
               h2 = h1\<lparr>nameprefix_tab :=
                         map (\<lambda>ke. (fst ke, (snd ke)\<lparr>propagating_head :=
                                map_option (removeAll nonce) (propagating_head (snd ke))\<rparr>))
                           (nameprefix_tab h1)\<rparr>
           in pe_update h2 nonce
                (\<lambda>p. (finished_propagating p)\<lparr>interest_msg := None, pe_usec := 0\<rparr>)))"

definition link_propagating_interest_to_nameprefix ::
  "ccnd_handle \<Rightarrow> bytes \<Rightarrow> name \<Rightarrow> ccnd_handle" where
  "link_propagating_interest_to_nameprefix h nonce k =
     npe_update h k
       (\<lambda>e. e\<lparr>propagating_head :=
                 Some ((case propagating_head e of None \<Rightarrow> [] | Some ps \<Rightarrow> ps) @ [nonce])\<rparr>)"

text \<open>The propagating entries linked under the prefix entry \<open>npe\<close>, from \<open>head->next\<close> on.\<close>

definition propagating_list :: "ccnd_handle \<Rightarrow> nameprefix_entry \<Rightarrow> (bytes \<times> propagating_entry) list" where
  "propagating_list h npe =
     (case propagating_head npe of
        None \<Rightarrow> []
      | Some ps \<Rightarrow>
          List.map_filter (\<lambda>n. map_option (Pair n) (map_of (propagating_tab h) n)) ps)"

text \<open>
  \<open>consume_matching_interests\<close> and \<open>match_interests\<close>.  \<open>matches\<close> stands for
  \<open>ccn_content_matches_interest\<close> of the library, \<open>only\<close> is the faceid of the argument
  \<open>face\<close> (\<open>None\<close> for a null pointer).  The results are the new state and the number of
  matches.
\<close>

fun consume_loop ::
  "(content_entry \<Rightarrow> bytes \<Rightarrow> bool) \<Rightarrow> content_entry \<Rightarrow> u32 option \<Rightarrow> bytes list \<Rightarrow>
   ccnd_handle \<times> nat \<Rightarrow> ccnd_handle \<times> nat" where
  "consume_loop matches content only [] hm = hm"
| "consume_loop matches content only (n # ns) hm =
     consume_loop matches content only ns
       (let h = fst hm in
        case map_of (propagating_tab h) n of
          None \<Rightarrow> hm
        | Some p \<Rightarrow>
            (case interest_msg p of
               None \<Rightarrow> hm
             | Some imsg \<Rightarrow>
                 if (case only of
                       None \<Rightarrow> face_from_faceid h (pe_faceid p) \<noteq> None
                     | Some fid \<Rightarrow> pe_faceid p = fid) \<and> matches content imsg
                 then (consume (face_send_queue_insert h
                                  (case only of None \<Rightarrow> pe_faceid p | Some fid \<Rightarrow> fid) content) n,
                       snd hm + 1)
                 else hm))"

definition consume_matching_interests ::
  "(content_entry \<Rightarrow> bytes \<Rightarrow> bool) \<Rightarrow> ccnd_handle \<Rightarrow> name \<Rightarrow> content_entry \<Rightarrow> u32 option \<Rightarrow>
   ccnd_handle \<times> nat" where
  "consume_matching_interests matches h k content only =
     (case map_of (nameprefix_tab h) k of
        None \<Rightarrow> (h, 0)
      | Some npe \<Rightarrow>
          (case propagating_head npe of
             None \<Rightarrow> (h, 0)
           | Some ps \<Rightarrow> consume_loop matches content only ps (h, 0)))"

definition adjust_ipe_predicted_response :: "nameprefix_entry \<Rightarrow> bool \<Rightarrow> nameprefix_entry" where
  "adjust_ipe_predicted_response npe up =
     (let t0 = usec npe;
          t = (if up then t0 + drop_bit 3 t0 else t0 - drop_bit 7 t0)
      in npe\<lparr>usec := (if t < 127 then 127 else if t > 1000000 then 1000000 else t)\<rparr>)"

definition note_content_from :: "nameprefix_entry \<Rightarrow> u32 \<Rightarrow> nameprefix_entry" where
  "note_content_from npe from_faceid =
     (if src npe = from_faceid then adjust_ipe_predicted_response npe False
      else if src npe = NOT 0 then npe\<lparr>src := from_faceid\<rparr>
      else npe\<lparr>osrc := src npe, src := from_faceid\<rparr>)"

text \<open>The loop of \<open>match_interests\<close> over the component counts \<open>cis\<close>; the state is the
  daemon, \<open>cm\<close> and \<open>n_matched\<close>.\<close>

fun match_loop ::
  "(content_entry \<Rightarrow> bytes \<Rightarrow> bool) \<Rightarrow> content_entry \<Rightarrow> u32 option \<Rightarrow> u32 option \<Rightarrow> nat list \<Rightarrow>
   ccnd_handle \<times> nat \<times> nat \<Rightarrow> ccnd_handle \<times> nat \<times> nat" where
  "match_loop matches content only from_face [] st = st"
| "match_loop matches content only from_face (ci # cis) st =
     match_loop matches content only from_face cis
       (let h = fst st; cm = fst (snd st); n_matched = snd (snd st);
            k = take ci (c_name content)
        in if map_of (nameprefix_tab h) k = None then st
           else
             (let r = consume_matching_interests matches h k content only;
                  new_matches = snd r;
                  h1 = (case from_face of
                          None \<Rightarrow> fst r
                        | Some ff \<Rightarrow>
                            if new_matches \<noteq> 0 \<or> ci + 1 = cm
                            then npe_update (fst r) k (\<lambda>e. note_content_from e ff)
                            else fst r)
              in if new_matches \<noteq> 0 then (h1, ci, n_matched + new_matches)
                 else (h1, cm, n_matched)))"

definition match_interests ::
  "(content_entry \<Rightarrow> bytes \<Rightarrow> bool) \<Rightarrow> ccnd_handle \<Rightarrow> content_entry \<Rightarrow> u32 option \<Rightarrow> u32 option \<Rightarrow>
   ccnd_handle \<times> nat" where
  "match_interests matches h content only from_face =
     (let st = match_loop matches content only from_face
                 (rev [0..<length (c_name content) + 1]) (h, 0, 0)
      in (fst st, snd (snd st)))"

definition reorder_outbound_using_history :: "nameprefix_entry \<Rightarrow> u32 list \<Rightarrow> u32 list" where
  "reorder_outbound_using_history npe ob =
     (let ob1 = (if osrc npe \<noteq> NOT 0 then ccn_indexbuf_move_to_end ob (osrc npe) else ob)
      in if src npe \<noteq> NOT 0 then ccn_indexbuf_move_to_end ob1 (src npe) else ob1)"

definition pe_next_usec :: "propagating_entry \<Rightarrow> int \<Rightarrow> propagating_entry \<times> int" where
  "pe_next_usec pe next_delay =
     (let d = (if next_delay > pe_usec pe then pe_usec pe else next_delay)
      in (pe\<lparr>pe_usec := pe_usec pe - d\<rparr>, d))"

section \<open>Incoming interests\<close>

text \<open>
  The test of \<open>adjust_outbound_for_existing_interests\<close> that the propagating entry \<open>p\<close>
  matches the new Interest \<open>msg\<close> in everything but the Nonce.
\<close>

definition similar_interest :: "bytes \<Rightarrow> parsed_interest \<Rightarrow> propagating_entry \<Rightarrow> bool" where
  "similar_interest msg pi p =
     (let presize = offset_B_Nonce pi;
          postsize = offset_E pi - offset_E_Nonce pi;
          minsize = presize + postsize;
          post = drop (offset_E_Nonce pi) msg
      in pe_size p > minsize \<and>
         (case interest_msg p of
            None \<Rightarrow> False
          | Some pmsg \<Rightarrow>
              pe_usec p > 0 \<and>
              take presize msg = take presize pmsg \<and>
              take postsize post = take postsize (drop (pe_size p - postsize) pmsg)))"

text \<open>
  The loop of \<open>adjust_outbound_for_existing_interests\<close> over the propagating entries
  \<open>ps\<close> of the prefix; the state is \<open>k\<close>, \<open>extra_delay\<close> and the outbound buffer, the
  result is the return value and the outbound buffer.
\<close>

fun adjust_loop ::
  "ccnd_handle \<Rightarrow> face \<Rightarrow> bytes \<Rightarrow> parsed_interest \<Rightarrow> nameprefix_entry \<Rightarrow> int \<Rightarrow>
   propagating_entry list \<Rightarrow> int \<Rightarrow> u32 \<Rightarrow> u32 list \<Rightarrow> u32 \<times> u32 list" where
  "adjust_loop h face msg pi npe max_redundant [] k extra_delay ob = (extra_delay, ob)"
| "adjust_loop h face msg pi npe max_redundant (p # ps) k extra_delay ob =
     (if ob = [] then (extra_delay, ob)
      else if similar_interest msg pi p then
        (if faceid face = pe_faceid p then
           (if k + 1 < max_redundant
            then adjust_loop h face msg pi npe max_redundant ps (k + 1)
                   (extra_delay + (usec npe + 20000)) ob
            else (0, []))
         else
           (case face_from_faceid h (pe_faceid p) of
              None \<Rightarrow> adjust_loop h face msg pi npe max_redundant ps k extra_delay ob
            | Some otherface \<Rightarrow>
                if pe_faceid p \<in> set ob then
                  adjust_loop h face msg pi npe max_redundant ps k
                    (if flags otherface AND (CCN_FACE_MCAST OR CCN_FACE_LINK) \<noteq> 0
                     then extra_delay + (usec npe + 10000) else extra_delay)
                    [pe_faceid p]
                else adjust_loop h face msg pi npe max_redundant ps k extra_delay []))
      else adjust_loop h face msg pi npe max_redundant ps k extra_delay ob)"

definition adjust_outbound_for_existing_interests ::
  "ccnd_handle \<Rightarrow> face \<Rightarrow> bytes \<Rightarrow> parsed_interest \<Rightarrow> nameprefix_entry \<Rightarrow> u32 list \<Rightarrow>
   u32 \<times> u32 list" where
  "adjust_outbound_for_existing_interests h face msg pi npe ob =
     (let max_redundant =
            (if flags face AND (CCN_FACE_MCAST OR CCN_FACE_LINK) \<noteq> 0 then 0 else 3)
      in if propagating_head npe \<noteq> None
         then adjust_loop h face msg pi npe max_redundant
                (map snd (propagating_list h npe)) 0 0 ob
         else (0, ob))"

text \<open>
  The ccnb header of \<open>ccn_charbuf_append_tt\<close> (ccn\_charbuf, ccn/coding.h): the low four
  bits of the value and the token type in the last byte, which has the high bit set, and
  seven more bits in each byte before it.
\<close>

function tt_high :: "nat \<Rightarrow> bytes" where
  "tt_high val = (if val = 0 then [] else tt_high (val div 128) @ [word_of_nat (val mod 128)])"
  by pat_completeness auto
termination
  by (relation "measure id") auto

definition ccn_charbuf_append_tt :: "nat \<Rightarrow> nat \<Rightarrow> bytes" where
  "ccn_charbuf_append_tt val tt =
     tt_high (val div 16) @ [word_of_nat (128 + (val mod 16) * 8 + tt mod 8)]"

definition CCN_DTAG :: nat where "CCN_DTAG = 2"
definition CCN_BLOB :: nat where "CCN_BLOB = 5"
definition CCN_DTAG_Nonce :: nat where "CCN_DTAG_Nonce = 41"
definition CCN_CLOSE :: byte where "CCN_CLOSE = 0"

text \<open>
  The Nonce element that \<open>propagate_interest\<close> makes for an Interest without one: the
  bytes \<open>s\<close> are \<open>nrand48(h->seed) >> i\<close> for \<open>i\<close> from 0 on, cut to a byte.
\<close>

definition random_nonce :: "nat \<Rightarrow> nat \<Rightarrow> bytes \<times> nat" where
  "random_nonce noncebytes sd =
     fold (\<lambda>i ss. let r = nrand48 (snd ss) in (fst ss @ [word_of_nat (drop_bit i (fst r))], snd r))
       [0..<noncebytes] ([], sd)"

definition nonce_element :: "bytes \<Rightarrow> bytes" where
  "nonce_element s =
     ccn_charbuf_append_tt CCN_DTAG_Nonce CCN_DTAG @
     ccn_charbuf_append_tt (length s) CCN_BLOB @ s @ [CCN_CLOSE]"

text \<open>
  \<open>propagate_interest\<close> for the prefix entry with key \<open>k\<close>.  The result is \<open>None\<close> when
  there is no such entry (a null \<open>npe\<close>), else the new state and the return value.
\<close>

definition propagate_interest ::
  "ccnd_handle \<Rightarrow> face \<Rightarrow> bytes \<Rightarrow> parsed_interest \<Rightarrow> name \<Rightarrow> u32 list option \<Rightarrow>
   (ccnd_handle \<times> int) option" where
  "propagate_interest h face msg pi k outbound0 =
     (case map_of (nameprefix_tab h) k of
        None \<Rightarrow> None
      | Some npe \<Rightarrow>
          (let adj = (case outbound0 of
                        None \<Rightarrow> (0, None)
                      | Some ob \<Rightarrow>
                          (let r = adjust_outbound_for_existing_interests h face msg pi npe ob
                           in if snd r = [] then (fst r, None)
                              else (fst r, Some (reorder_outbound_using_history npe (snd r)))));
               extra_delay = fst adj;
               outb = snd adj;
               syn = (if offset_B_Nonce pi = offset_E_Nonce pi then
                        (let rn = random_nonce 6 (seed h);
                             nonce = nonce_element (fst rn)
                         in (nonce,
                             take (offset_B_Nonce pi) msg @ nonce @
                               drop (offset_B_OTHER pi) (take (offset_E pi) msg),
                             snd rn))
                      else
                        (take (offset_E_Nonce pi - offset_B_Nonce pi) (drop (offset_B_Nonce pi) msg),
                         take (offset_E pi) msg, seed h));
               nonce = fst syn;
               msg_out = fst (snd syn);
               h1 = h\<lparr>seed := snd (snd syn)\<rparr>
           in case map_of (propagating_tab h1) nonce of
                None \<Rightarrow>
                  (let unsent = (case outb of
                                   None \<Rightarrow> False
                                 | Some ob \<Rightarrow> ob \<noteq> [] \<and> last ob = src npe \<and> extra_delay = 0);
                       delaymask = (if unsent then 0xFF else 0xFFF :: nat);
                       pe = \<lparr>outbound = outb, interest_msg = Some msg_out,
                             pe_size = length msg_out,
                             pe_flags = (if unsent then CCN_PR_UNSENT else 0),
                             pe_faceid = faceid face,
                             pe_usec = CCN_INTEREST_LIFETIME_MICROSEC\<rparr>;
                       h2 = face_update h1 (faceid face)
                              (\<lambda>f. f\<lparr>pending_interests := pending_interests f + 1\<rparr>);
                       h3 = link_propagating_interest_to_nameprefix h2 nonce k;
                       r = nrand48 (seed h3);
                       us = (if outb = None then (pe_usec pe, seed h3)
                             else (int (fst r AND delaymask) + 1 + sint extra_delay, snd r));
                       nx = pe_next_usec pe (fst us)
                   in Some (h3\<lparr>propagating_tab := propagating_tab h3 @ [(nonce, fst nx)],
                                seed := snd us,
                                sched := sched h3 @
                                  [\<lparr>ev_usec = snd nx, ev_action = Do_propagate nonce,
                                    ev_int = usec npe\<rparr>]\<rparr>, 0))
              | Some pe \<Rightarrow>
                  Some (pe_update (ccnd_msg h1 ''Interesting - this shouldn't happen much'') nonce
                          (\<lambda>p. case outbound p of
                                  None \<Rightarrow> p
                                | Some ob \<Rightarrow>
                                    p\<lparr>outbound := Some (ccn_indexbuf_remove_element ob (faceid face))\<rparr>),
                        - 1)))"

text \<open>\<open>is_duplicate_flooded\<close>: the new state and the truth of the return value.\<close>

definition is_duplicate_flooded ::
  "ccnd_handle \<Rightarrow> bytes \<Rightarrow> parsed_interest \<Rightarrow> u32 \<Rightarrow> ccnd_handle \<times> bool" where
  "is_duplicate_flooded h msg pi fid =
     (let nonce_start = offset_B_Nonce pi;
          nonce_size = offset_E_Nonce pi - nonce_start
      in if nonce_size = 0 then (h, False)
         else
           (case map_of (propagating_tab h) (take nonce_size (drop nonce_start msg)) of
              None \<Rightarrow> (h, False)
            | Some pe \<Rightarrow>
                (pe_update h (take nonce_size (drop nonce_start msg))
                   (\<lambda>p. case outbound p of
                           None \<Rightarrow> p
                         | Some ob \<Rightarrow> p\<lparr>outbound := Some (ccn_indexbuf_remove_element ob fid)\<rparr>),
                 True)))"

definition content_update ::
  "ccnd_handle \<Rightarrow> bytes \<Rightarrow> (content_entry \<Rightarrow> content_entry) \<Rightarrow> ccnd_handle" where
  "content_update h ck g = h\<lparr>content_tab := AList.map_entry ck g (content_tab h)\<rparr>"

text \<open>\<open>mark_stale\<close> of the content entry with key \<open>ck\<close>.\<close>

definition mark_stale :: "ccnd_handle \<Rightarrow> bytes \<Rightarrow> ccnd_handle" where
  "mark_stale h ck =
     (case map_of (content_tab h) ck of
        None \<Rightarrow> h
      | Some content \<Rightarrow>
          if c_flags content AND CCN_CONTENT_ENTRY_STALE \<noteq> 0 then h
          else
            (let h1 = content_update h ck
                        (\<lambda>c. c\<lparr>c_flags := c_flags c OR CCN_CONTENT_ENTRY_STALE\<rparr>);
                 h2 = (if accession content < min_stale h1
                       then h1\<lparr>min_stale := accession content\<rparr> else h1)
             in if accession content > max_stale h2
                then h2\<lparr>max_stale := accession content\<rparr> else h2))"

text \<open>
  \<open>process_incoming_interest\<close> for the message \<open>msg\<close> from the face with id \<open>fid\<close>.
  \<open>parse\<close> is what \<open>ccn_parse_interest\<close> makes of the message (\<open>None\<close> for a negative
  result).  \<open>cs_walk\<close> stands for the search of the content store (the walk over the
  name-ordered skip list from \<open>find_first_match_candidate\<close> on): its result is the key of
  the content entry that answers the Interest, if there is one.  The result is \<open>None\<close>
  where the C code dereferences a null pointer or does not return.
\<close>

definition process_incoming_interest ::
  "(content_entry \<Rightarrow> bytes \<Rightarrow> bool) \<Rightarrow> (ccnd_handle \<Rightarrow> bytes \<Rightarrow> parsed_interest \<Rightarrow> bytes option) \<Rightarrow>
   ccnd_handle \<Rightarrow> u32 \<Rightarrow> bytes \<Rightarrow> parsed_interest option \<Rightarrow> ccnd_handle option" where
  "process_incoming_interest matches cs_walk h fid msg parse =
     (case face_from_faceid h fid of
        None \<Rightarrow> None
      | Some face \<Rightarrow>
          (case (if length msg > 65535 then None else parse) of
             None \<Rightarrow> Some (ccnd_msg h ''error parsing Interest'')
           | Some pi \<Rightarrow>
               if scope pi \<ge> 0 \<and> scope pi < 2 \<and> flags face AND CCN_FACE_GG = 0
               then Some (ccnd_msg h ''interest_outofscope'')
               else if snd (is_duplicate_flooded h msg pi (faceid face))
               then Some ((fst (is_duplicate_flooded h msg pi (faceid face)))
                            \<lparr>interests_dropped :=
                               interests_dropped (fst (is_duplicate_flooded h msg pi (faceid face))) + 1\<rparr>)
               else
                 (let h1 = fst (is_duplicate_flooded h msg pi (faceid face));
                      h2 = (if magic pi \<noteq> 20090701 then
                              (let h' = h1\<lparr>oldformatinterests := oldformatinterests h1 + 1\<rparr>
                               in if oldformatinterests h' = oldformatinterestgrumble h'
                                  then ccnd_msg (h'\<lparr>oldformatinterestgrumble :=
                                                     oldformatinterestgrumble h' * 2\<rparr>)
                                         ''downrev interests received''
                                  else h')
                            else h1);
                      h3 = h2\<lparr>interests_accepted := interests_accepted h2 + 1\<rparr>;
                      sk = (case nameprefix_longest_match h3 (pi_name pi) (prefix_comps pi) of
                              None \<Rightarrow> (h3, None)
                            | Some res \<Rightarrow> nameprefix_seek h3 (pi_name pi) res);
                      h4 = fst sk;
                      hit = (case snd sk of
                               None \<Rightarrow> None
                             | Some k \<Rightarrow>
                                 if answerfrom pi AND CCN_AOK_CS \<noteq> 0
                                 then (case cs_walk h4 msg pi of
                                         None \<Rightarrow> None
                                       | Some ck \<Rightarrow>
                                           map_option (\<lambda>c. (k, ck, c)) (map_of (content_tab h4) ck))
                                 else None)
                  in case hit of
                       Some (k, ck, content) \<Rightarrow>
                         (let queued = list_ex (\<lambda>c. case q face c of
                                           None \<Rightarrow> False
                                         | Some cq \<Rightarrow> ccn_indexbuf_member (send_queue cq)
                                                       (accession content))
                                         [CCN_CQ_ASAP, CCN_CQ_NORMAL, CCN_CQ_SLOW];
                              h5 = (if queued then Some h4
                                    else map_option
                                           (\<lambda>r. fst (match_interests matches (fst r) content
                                                         (Some (faceid face)) None))
                                           (propagate_interest h4 face msg pi k None))
                          in map_option
                               (\<lambda>h'. if answerfrom pi AND CCN_AOK_EXPIRE \<noteq> 0
                                      then mark_stale h' ck else h') h5)
                     | None \<Rightarrow>
                         if scope pi \<noteq> 0 then
                           (case snd sk of
                              None \<Rightarrow> None
                            | Some k \<Rightarrow>
                                (case get_outbound_faces h4 (Some (faceid face)) pi k of
                                   None \<Rightarrow> None
                                 | Some (h5, ob) \<Rightarrow>
                                     map_option fst (propagate_interest h5 face msg pi k (Some ob))))
                         else Some h4)))"

section \<open>Incoming content\<close>

text \<open>
  What \<open>ccn_parse_ContentObject\<close> and \<open>ccn_digest_ContentObject\<close> make of a wire message
  that parses: the name components, the offset \<open>comps->buf[comps->n - 1]\<close> of the end of
  the last component, the offset of the Content element, the digest, and the fields
  \<open>magic\<close>, \<open>type\<close> (here: whether it is \<open>CCN_CONTENT_KEY\<close>) and FreshnessSeconds
  (\<open>None\<close> when the element is absent).
\<close>

record parsed_ContentObject =
  co_name :: name
  co_name_end :: nat
  co_B_Content :: nat
  co_digest :: bytes
  co_magic :: int
  co_is_key :: bool
  co_freshness :: "int option"

definition CCN_DTAG_Component :: nat where "CCN_DTAG_Component = 15"

text \<open>The explicit digest component that is spliced into the stored object.\<close>

definition digest_component :: "bytes \<Rightarrow> bytes" where
  "digest_component d =
     ccn_charbuf_append_tt CCN_DTAG_Component CCN_DTAG @
     ccn_charbuf_append_tt (length d) CCN_BLOB @ d @ [CCN_CLOSE]"

text \<open>\<open>set_content_timer\<close> for the entry with accession \<open>acc\<close>.\<close>

definition set_content_timer :: "ccnd_handle \<Rightarrow> u32 \<Rightarrow> int option \<Rightarrow> ccnd_handle" where
  "set_content_timer h acc fresh =
     (case fresh of
        None \<Rightarrow> h
      | Some seconds \<Rightarrow>
          if seconds \<le> 0 then h
          else if seconds > 2 ^ 31 div 1000000 then ccnd_msg h ''FreshnessSeconds_too_large''
          else h\<lparr>sched := sched h @
                 [\<lparr>ev_usec = seconds * 1000000, ev_action = Expire_content, ev_int = acc\<rparr>]\<rparr>)"

text \<open>
  \<open>content_skiplist_insert\<close> draws the depth \<open>d\<close> of the new entry from the generator:
  starting from 1 the depth grows as long as it is below \<open>CCN_SKIPLIST_MAX_DEPTH - 1\<close>
  and the two low bits of \<open>nrand48(h->seed)\<close> are zero.  \<open>skiplist_depth d sd\<close> is the
  depth and the state of the generator at the end of that loop.  The links of the skip
  list are not part of the model (searches of the content store are a parameter), so
  that the generator is all that \<open>content_skiplist_insert\<close> changes here.
\<close>

definition CCN_SKIPLIST_MAX_DEPTH :: nat where "CCN_SKIPLIST_MAX_DEPTH = 30"

function skiplist_depth :: "nat \<Rightarrow> nat \<Rightarrow> nat \<times> nat" where
  "skiplist_depth d sd =
     (if d < CCN_SKIPLIST_MAX_DEPTH - 1 then
        (let r = nrand48 sd
         in if fst r AND 3 \<noteq> 0 then (d, snd r) else skiplist_depth (d + 1) (snd r))
      else (d, sd))"
  by pat_completeness auto
termination
  by (relation "measure (\<lambda>(d, sd). CCN_SKIPLIST_MAX_DEPTH - 1 - d)") auto

declare skiplist_depth.simps [simp del]

definition content_skiplist_insert :: "ccnd_handle \<Rightarrow> ccnd_handle" where
  "content_skiplist_insert h = h\<lparr>seed := snd (skiplist_depth 1 (seed h))\<rparr>"

text \<open>
  The end of \<open>process_incoming_content\<close>, after label \<open>Bail\<close>, for a content entry with key
  \<open>ck\<close> and a non-negative \<open>res\<close>; \<open>new\<close> tells whether \<open>res\<close> is \<open>HT_NEW_ENTRY\<close>.  The
  condition on the face is the one of the source, written with the logical \<open>&&\<close>.
\<close>

definition content_arrived ::
  "(content_entry \<Rightarrow> bytes \<Rightarrow> bool) \<Rightarrow> ccnd_handle \<Rightarrow> u32 \<Rightarrow> bytes \<Rightarrow> bool \<Rightarrow> ccnd_handle" where
  "content_arrived matches h fid ck new =
     (case map_of (content_tab h) ck of
        None \<Rightarrow> h
      | Some content \<Rightarrow>
          (let r = match_interests matches h content None (Some fid);
               h1 = fst r;
               n_matches = snd r;
               h2 = (case face_from_faceid h1 fid of
                       None \<Rightarrow> h1
                     | Some face \<Rightarrow>
                         if new \<and> n_matches = 0 \<and> \<not> (flags face \<noteq> 0 \<and> CCN_FACE_GG \<noteq> 0)
                         then content_update h1 ck
                                (\<lambda>c. c\<lparr>c_flags := c_flags c OR CCN_CONTENT_ENTRY_SLOWSEND\<rparr>)
                         else h1)
           in face_update h2 fid
                (\<lambda>f. f\<lparr>q := (\<lambda>c. map_option
                         (\<lambda>cq. if ccn_indexbuf_member (send_queue cq) (accession content)
                                then cq\<lparr>send_queue :=
                                  (send_queue cq)[length (takeWhile (\<lambda>a. a \<noteq> accession content)
                                                     (send_queue cq)) := 0]\<rparr>
                                else cq)
                         (q f c))\<rparr>)))"

text \<open>
  \<open>process_incoming_content\<close> for the wire message \<open>wire\<close> from the face with id \<open>fid\<close>;
  \<open>parse\<close> is \<open>None\<close> when \<open>ccn_parse_ContentObject\<close> fails.  The content hash table
  stands for all three indexes of the content store: an entry that is deleted from it
  leaves the accession table and the skip list in its finalizer.  In the test for
  precious keys the accession number is converted to \<open>unsigned long\<close>, the type of
  \<open>h->capacity\<close> (64 bits), and \<open>h->capacity + 7\<close> wraps around.
\<close>

definition process_incoming_content ::
  "(content_entry \<Rightarrow> bytes \<Rightarrow> bool) \<Rightarrow> ccnd_handle \<Rightarrow> u32 \<Rightarrow> bytes \<Rightarrow>
   parsed_ContentObject option \<Rightarrow> ccnd_handle" where
  "process_incoming_content matches h fid wire parse =
     (case parse of
        None \<Rightarrow> ccnd_msg h ''error parsing ContentObject''
      | Some obj \<Rightarrow>
          if co_name_end obj > 65535 - 36
          then ccnd_msg (ccnd_msg h ''ContentObject with keysize discarded'') ''oversize''
          else if length (co_digest obj) \<noteq> 32 then ccnd_msg h ''indigestible''
          else
            (let i = co_name_end obj;
                 msg = take i wire @ digest_component (co_digest obj) @ drop i wire;
                 h1 = (if co_magic obj \<noteq> 20090415 then
                         (let h' = h\<lparr>oldformatcontent := oldformatcontent h + 1\<rparr>
                          in if oldformatcontent h' = oldformatcontentgrumble h'
                             then ccnd_msg (h'\<lparr>oldformatcontentgrumble :=
                                                oldformatcontentgrumble h' * 10\<rparr>)
                                    ''downrev content items received''
                             else h')
                       else h);
                 keysize = co_B_Content obj + length (digest_component (co_digest obj));
                 ck = take keysize msg;
                 tail = drop keysize msg
             in case map_of (content_tab h1) ck of
                  Some content \<Rightarrow>
                    if tail \<noteq> ext content then
                      (ccnd_msg (ccnd_msg (ccnd_msg h1 ''ContentObject name collision!!!!!'')
                                   ''new'') ''old'')
                        \<lparr>content_tab := AList.delete ck (content_tab h1)\<rparr>
                    else if c_flags content AND CCN_CONTENT_ENTRY_STALE \<noteq> 0 then
                      content_arrived matches
                        (set_content_timer
                           (content_update h1 ck
                              (\<lambda>c. c\<lparr>c_flags := c_flags c AND NOT CCN_CONTENT_ENTRY_STALE\<rparr>))
                           (accession content) (co_freshness obj))
                        fid ck False
                    else
                      content_arrived matches
                        (ccnd_msg (ccnd_msg (h1\<lparr>content_dups_recvd := content_dups_recvd h1 + 1\<rparr>)
                                     ''received duplicate ContentObject'') ''dup'')
                        fid ck False
                | None \<Rightarrow>
                    (let acc = accession_ctr h1 + 1;
                         content = \<lparr>accession = acc,
                                    c_name = co_name obj @ [co_digest obj],
                                    c_flags = (if co_is_key obj \<and> ucast acc \<le> (capacity h1 + 7) div 8
                                               then CCN_CONTENT_ENTRY_PRECIOUS else 0),
                                    key = ck, ext = tail\<rparr>;
                         h2 = content_skiplist_insert
                                (h1\<lparr>accession_ctr := acc,
                                    content_tab := content_tab h1 @ [(ck, content)]\<rparr>)
                     in content_arrived matches
                          (set_content_timer h2 acc (co_freshness obj)) fid ck True)))"

section \<open>Face life cycle and statistics\<close>

text \<open>\<open>enroll_face\<close>: the search for a free slot from \<open>i\<close> on.\<close>

fun free_slot :: "face option list \<Rightarrow> nat \<Rightarrow> nat option" where
  "free_slot [] i = None"
| "free_slot (a # as) i = (if a = None then Some i else free_slot as (Suc i))"

text \<open>
  \<open>enroll_face\<close> of a new face with the given flags; the other fields of the face are
  zero.  The result is the new state and the return value (\<open>None\<close> for \<open>-1\<close>).
\<close>

definition enroll_face :: "ccnd_handle \<Rightarrow> u32 \<Rightarrow> ccnd_handle \<times> u32 option" where
  "enroll_face h fl =
     (let n = length (faces_by_faceid h);
          a = faces_by_faceid h;
          use = (\<lambda>h' i.
                   (let fid = word_of_nat i OR face_gen h';
                        face = \<lparr>flags = fl, faceid = fid, recvcount = 0, q = (\<lambda>c. None),
                                pending_interests = 0\<rparr>;
                        h1 = h'\<lparr>faces_by_faceid := (faces_by_faceid h')[i := Some face],
                                face_rover := word_of_nat i + 1\<rparr>;
                        h2 = (if flood h1 \<and> fid \<noteq> 0 \<and> fl AND CCN_FACE_UNDECIDED = 0
                              then fst (ccnd_reg_prefix h1 [] 0 fid CCN_FORW_CHILD_INHERIT 0x7FFFFFFF)
                              else h1)
                    in (h2, Some fid)))
      in case free_slot (drop (unat (face_rover h)) a) (unat (face_rover h)) of
           Some i \<Rightarrow> use h i
         | None \<Rightarrow>
             (case free_slot a 0 of
                Some i \<Rightarrow> use (h\<lparr>face_gen := face_gen h + (MAXFACES + 1)\<rparr>) i
              | None \<Rightarrow>
                  (let i = min ((n + 1) * 3 div 2) (unat MAXFACES)
                   in if i \<le> n then (h, None)
                      else use (h\<lparr>faces_by_faceid := a @ replicate (i - n) None\<rparr>) n)))"

text \<open>
  \<open>finalize_face\<close>, which runs when the entry of a face is deleted from its hash table
  (\<open>shutdown_client_fd\<close>, \<open>check_dgram_faces\<close>).  Destroying the content queues cancels
  their senders.
\<close>

definition finalize_face :: "ccnd_handle \<Rightarrow> u32 \<Rightarrow> ccnd_handle" where
  "finalize_face h fid =
     (case face_from_faceid h fid of
        None \<Rightarrow> ccnd_msg h ''orphaned face''
      | Some face \<Rightarrow>
          (let i = unat (fid AND MAXFACES);
               recycle = (flags face AND CCN_FACE_UNDECIDED \<noteq> 0 \<and>
                          fid = ((face_rover h - 1) OR face_gen h));
               h1 = h\<lparr>faces_by_faceid := (faces_by_faceid h)[i := None],
                       face_rover := (if recycle then face_rover h - 1 else face_rover h),
                       sched := filter (\<lambda>ev. case ev_action ev of
                                               Content_sender f c \<Rightarrow> f \<noteq> fid
                                             | _ \<Rightarrow> True) (sched h)\<rparr>
           in ccnd_msg h1 (if recycle then ''recycling face id'' else ''releasing face id'')))"

text \<open>
  \<open>ccnd_collect_stats\<close> (ccnd\_stats.c): the number of propagating entries linked under
  the prefix entries, the sum of the pending interest counters of the faces, and the
  consistency check of the two.
\<close>

definition total_interest_counts :: "ccnd_handle \<Rightarrow> int" where
  "total_interest_counts h =
     (\<Sum>ke\<leftarrow>nameprefix_tab h.
        case propagating_head (snd ke) of None \<Rightarrow> 0 | Some ps \<Rightarrow> int (length ps))"

definition pending_interests_sum :: "ccnd_handle \<Rightarrow> int" where
  "pending_interests_sum h =
     (\<Sum>a\<leftarrow>faces_by_faceid h. case a of None \<Rightarrow> 0 | Some face \<Rightarrow> pending_interests face)"

definition ccnd_collect_stats :: "ccnd_handle \<Rightarrow> ccnd_handle" where
  "ccnd_collect_stats h =
     (if pending_interests_sum h \<noteq> total_interest_counts h
      then ccnd_msg h ''ccnd_collect_stats found inconsistency''
      else h)"

section \<open>Dispatch of input messages\<close>

text \<open>
  What \<open>ccn_skeleton_decode\<close> (ccn\_coding) tells the daemon about a message: the
  message is an element opened by a DTAG with its number and its complete content elements
  (\<open>Dtag\<close>), another complete token such as a BLOB (\<open>Blob\<close>), or bytes on which the
  decoder does not come back to its initial state (\<open>Junk\<close>).  The DTAG numbers are an
  enumeration of ccn/coding.h.
\<close>

datatype ccn_dtag =
  CCN_DTAG_CCNProtocolDataUnit
  | CCN_DTAG_Interest
  | CCN_DTAG_ContentObject
  | CCN_DTAG_ContentObjectV20080711
  | CCN_DTAG_Inject
  | CCN_DTAG_other nat

datatype ccnb = Dtag ccn_dtag "ccnb list" | Blob | Junk

text \<open>
  The three handlers that \<open>process_input_message\<close> calls are arguments of the model:
  \<open>process_incoming_interest\<close>, \<open>process_incoming_content\<close> and
  \<open>process_incoming_inject\<close>, each applied to the daemon, the face and the message.
\<close>

record handlers =
  on_interest :: "ccnd_handle \<Rightarrow> u32 \<Rightarrow> ccnb \<Rightarrow> ccnd_handle"
  on_content :: "ccnd_handle \<Rightarrow> u32 \<Rightarrow> ccnb \<Rightarrow> ccnd_handle"
  on_inject :: "ccnd_handle \<Rightarrow> u32 \<Rightarrow> ccnb \<Rightarrow> ccnd_handle"

text \<open>
  \<open>process_input_message\<close>, and the loop over the content of a protocol data unit
  (\<open>pdu_loop\<close>), which stops at the first element that leaves the decoder in a state
  other than 0.
\<close>

fun process_input_message ::
      "handlers \<Rightarrow> ccnd_handle \<Rightarrow> u32 \<Rightarrow> ccnb \<Rightarrow> bool \<Rightarrow> ccnd_handle"
  and pdu_loop :: "handlers \<Rightarrow> ccnd_handle \<Rightarrow> u32 \<Rightarrow> ccnb list \<Rightarrow> ccnd_handle" where
  "process_input_message hs h face (Dtag numval body) pdu_ok =
     (if pdu_ok \<and> numval = CCN_DTAG_CCNProtocolDataUnit then
        pdu_loop hs
          (face_update h face
             (\<lambda>f. f\<lparr>flags := (flags f OR CCN_FACE_LINK) AND NOT CCN_FACE_GG\<rparr>))
          face body
      else if numval = CCN_DTAG_Interest then on_interest hs h face (Dtag numval body)
      else if numval = CCN_DTAG_ContentObject \<or> numval = CCN_DTAG_ContentObjectV20080711
        then on_content hs h face (Dtag numval body)
      else if numval = CCN_DTAG_Inject then on_inject hs h face (Dtag numval body)
      else ccnd_msg h ''discarding unknown message'')"
| "process_input_message hs h face Blob pdu_ok = ccnd_msg h ''discarding unknown message''"
| "process_input_message hs h face Junk pdu_ok = ccnd_msg h ''discarding unknown message''"
| "pdu_loop hs h face [] = h"
| "pdu_loop hs h face (m # ms) =
     (if m = Junk then h
      else pdu_loop hs (process_input_message hs h face m False) face ms)"

text \<open>
  The treatment of one message found inside a protocol data unit, in the words of the
  specification: Interest, ContentObject and Inject messages go to their handlers, and
  anything else, a protocol data unit included, is discarded as an unknown message.
\<close>

definition deliver_unwrapped :: "handlers \<Rightarrow> u32 \<Rightarrow> ccnb \<Rightarrow> ccnd_handle \<Rightarrow> ccnd_handle" where
  "deliver_unwrapped hs face m h =
     (case m of
        Dtag CCN_DTAG_Interest b \<Rightarrow> on_interest hs h face m
      | Dtag CCN_DTAG_ContentObject b \<Rightarrow> on_content hs h face m
      | Dtag CCN_DTAG_ContentObjectV20080711 b \<Rightarrow> on_content hs h face m
      | Dtag CCN_DTAG_Inject b \<Rightarrow> on_inject hs h face m
      | _ \<Rightarrow> ccnd_msg h ''discarding unknown message'')"

section \<open>Example states\<close>

text \<open>
  A daemon with five face slots: the internal client's face 0 (friendly and local), a
  remote datagram face 1, a local stream face 2 and a link-framed datagram face 3; all
  tables are empty.
\<close>

definition example_face :: "u32 \<Rightarrow> u32 \<Rightarrow> face" where
  "example_face fid fl =
     \<lparr>flags = fl, faceid = fid, recvcount = 0, q = (\<lambda>c. None), pending_interests = 0\<rparr>"

definition example_handle :: ccnd_handle where
  "example_handle =
     \<lparr>faces_by_faceid =
        [Some (example_face 0 (CCN_FACE_GG OR CCN_FACE_LOCAL)),
         Some (example_face 1 (CCN_FACE_DGRAM OR CCN_FACE_INET)),
         Some (example_face 2 (CCN_FACE_GG OR CCN_FACE_LOCAL)),
         Some (example_face 3 (CCN_FACE_LINK OR CCN_FACE_DGRAM OR CCN_FACE_INET)),
         None],
      face_gen = 0, face_rover = 4, forward_to_gen = 0,
      nameprefix_tab = [], propagating_tab = [], content_tab = [],
      accession_ctr = 0, min_stale = NOT 0, max_stale = 0, capacity = 1000,
      sched = [], seed = 1,
      oldformatcontent = 0, oldformatcontentgrumble = 1,
      oldformatinterests = 0, oldformatinterestgrumble = 1,
      content_dups_recvd = 0, interests_accepted = 0, interests_dropped = 0,
      flood = False, interest_faceid = 0, data_pause_microsec = 10000, log = []\<rparr>"

text \<open>A request to register the prefix \<open>/a\<close> for face 1 for 5000 seconds.\<close>

definition example_prefixreg :: ccn_forwarding_entry where
  "example_prefixreg =
     \<lparr>action = Some ''prefixreg'', name_prefix = Some (Some [[97]]), fe_ccnd_id = [],
      fe_faceid = 1, fe_flags = 3, lifetime = 5000\<rparr>"

text \<open>
  The example daemon after face 1 has been registered for \<open>/a\<close> with CHILD\_INHERIT, and
  the entries of \<open>/a/b/c\<close> have been created; an Interest in \<open>/a/b/c\<close> without scope.
\<close>

definition example_fib :: ccnd_handle where
  "example_fib =
     fst (nameprefix_seek
            (fst (ccnd_reg_prefix example_handle [[97]] 1 1 CCN_FORW_CHILD_INHERIT 300))
            [[97], [98], [99]] 3)"

text \<open>
  Interest messages in \<open>/a/b/c\<close>: three bytes stand for everything before the Nonce, one
  byte for everything after it.  \<open>example_msg b\<close> carries a Nonce made of the byte \<open>b\<close>,
  \<open>example_msg0\<close> carries none.
\<close>

definition example_msg :: "byte \<Rightarrow> bytes" where
  "example_msg b = [1, 2, 3] @ nonce_element [b, b, b, b, b, b] @ [0]"

definition example_pi :: parsed_interest where
  "example_pi =
     \<lparr>magic = 20090701, prefix_comps = 3, orderpref = 0, answerfrom = 3, scope = - 1,
      offset_B_Nonce = 3, offset_E_Nonce = 13, offset_B_OTHER = 13, offset_E = 14,
      pi_name = [[97], [98], [99]]\<rparr>"

definition example_msg0 :: bytes where
  "example_msg0 = [1, 2, 3, 0]"

definition example_pi0 :: parsed_interest where
  "example_pi0 = example_pi\<lparr>offset_E_Nonce := 3, offset_B_OTHER := 3, offset_E := 4\<rparr>"

text \<open>A content store search that finds nothing, and one that finds the key \<open>ck\<close>.\<close>

definition no_cs :: "ccnd_handle \<Rightarrow> bytes \<Rightarrow> parsed_interest \<Rightarrow> bytes option" where
  "no_cs h msg pi = None"

definition cs_finds :: "bytes \<Rightarrow> ccnd_handle \<Rightarrow> bytes \<Rightarrow> parsed_interest \<Rightarrow> bytes option" where
  "cs_finds ck h msg pi = Some ck"

definition all_match :: "content_entry \<Rightarrow> bytes \<Rightarrow> bool" where
  "all_match content imsg = True"

text \<open>
  The example daemon after the Interest \<open>example_msg 7\<close> has arrived from the local face 2
  (\<open>example_pit\<close>), and after it has arrived from the link face 3 (\<open>example_pit_link\<close>).
\<close>

definition example_pit :: ccnd_handle where
  "example_pit =
     (case process_incoming_interest all_match no_cs example_fib 2 (example_msg 7) (Some example_pi) of
        None \<Rightarrow> example_fib
      | Some h \<Rightarrow> h)"

definition example_pit_link :: ccnd_handle where
  "example_pit_link =
     (case process_incoming_interest all_match no_cs example_fib 3 (example_msg 7) (Some example_pi) of
        None \<Rightarrow> example_fib
      | Some h \<Rightarrow> h)"

text \<open>
  A ContentObject named \<open>/a/b/c\<close>: four bytes up to the end of the name, two more up to
  the Content element, and two bytes of content.  \<open>example_cs\<close> is the example daemon
  after it has arrived from the remote face 1.
\<close>

definition example_wire :: bytes where
  "example_wire = [4, 5, 6, 7, 8, 9, 10, 11]"

definition example_obj :: parsed_ContentObject where
  "example_obj =
     \<lparr>co_name = [[97], [98], [99]], co_name_end = 4, co_B_Content = 6,
      co_digest = replicate 32 1, co_magic = 20090415, co_is_key = False,
      co_freshness = None\<rparr>"

definition example_cs :: ccnd_handle where
  "example_cs = process_incoming_content all_match example_fib 1 example_wire (Some example_obj)"

definition example_key :: bytes where
  "example_key = take 42 (take 4 example_wire @ digest_component (replicate 32 1) @ drop 4 example_wire)"

text \<open>The entry of \<open>/a/b/c\<close> in \<open>example_pit\<close> and in \<open>example_pit_link\<close>.\<close>

definition example_npe :: nameprefix_entry where
  "example_npe =
     \<lparr>propagating_head = Some [nonce_element [7, 7, 7, 7, 7, 7]], forward_to = Some [1],
      forwarding = [], parent = Some [[97], [98]], children = 0, fgen = 1,
      src = NOT 0, osrc = NOT 0, usec = 12150\<rparr>"

text \<open>The propagating entry of \<open>example_pit\<close>.\<close>

definition example_pe :: propagating_entry where
  "example_pe =
     \<lparr>outbound = Some [1], interest_msg = Some (example_msg 7), pe_size = 14,
      pe_flags = 0, pe_faceid = 2, pe_usec = 3998905\<rparr>"

text \<open>
  The daemon \<open>example_cs\<close> after an Interest of scope 0 has arrived from the local face 2
  and the search of the content store has found the stored object.
\<close>

definition example_scope0 :: ccnd_handle where
  "example_scope0 =
     (case process_incoming_interest all_match (cs_finds example_key) example_cs 2
             (example_msg 7) (Some (example_pi\<lparr>scope := 0\<rparr>)) of
        None \<Rightarrow> example_cs
      | Some h \<Rightarrow> h)"

text \<open>
  A second wire message with the bytes of \<open>example_wire\<close> up to the start of the content
  and another content: with the same digest in its parse result it has the key of the
  object stored in \<open>example_cs\<close> and another tail.
\<close>

definition example_wire2 :: bytes where
  "example_wire2 = [4, 5, 6, 7, 8, 9, 12, 13]"

text \<open>
  An Interest in \<open>/a/b/c\<close> whose Nonce is made of the six bytes that the generator
  yields next once one Interest has been propagated from \<open>example_fib\<close>, and the daemon
  \<open>example_collide\<close> after that Interest has arrived from the local face 2.
\<close>

definition example_msgA :: bytes where
  "example_msgA = [1, 2, 3] @ nonce_element [172, 188, 244, 139, 131, 143] @ [0]"

definition example_collide :: ccnd_handle where
  "example_collide =
     (case process_incoming_interest all_match no_cs example_fib 2 example_msgA (Some example_pi) of
        None \<Rightarrow> example_fib
      | Some h \<Rightarrow> h)"

section \<open>Properties\<close>

subsection \<open>Tables and the face array\<close>

lemma map_of_map_entry_same:
  "map_of (AList.map_entry k g tab) k = map_option g (map_of tab k)"
  by (induction tab) auto

lemma face_from_faceid_Some:
  "face_from_faceid h fid = Some face \<Longrightarrow> faceid face = fid"
  by (auto simp: face_from_faceid_def Let_def split: if_splits option.splits)

subsection \<open>Prefix registration\<close>

lemma nameprefix_seek_step_result:
  "snd (nameprefix_seek_step k hp) = Some k \<and>
   map_of (nameprefix_tab (fst (nameprefix_seek_step k hp))) k \<noteq> None"
  by (auto simp: nameprefix_seek_step_def Let_def npe_update_def map_add_def
      split: option.splits prod.splits)

lemma nameprefix_seek_result:
  assumes "nameprefix_seek h nm n = (h1, Some k)"
  shows "k = take n nm \<and> map_of (nameprefix_tab h1) k \<noteq> None"
proof -
  from assms have le: "n \<le> length nm"
    by (auto simp: nameprefix_seek_def split: if_splits)
  with assms have "nameprefix_seek_step (take n nm)
      (fold nameprefix_seek_step (map (\<lambda>i. take i nm) [0..<n]) (h, None)) = (h1, Some k)"
    by (simp add: nameprefix_seek_def)
  with nameprefix_seek_step_result [of "take n nm"
      "fold nameprefix_seek_step (map (\<lambda>i. take i nm) [0..<n]) (h, None)"]
  show ?thesis by auto
qed

lemma find_forwarding_Some:
  "find_forwarding fs fid = Some i \<Longrightarrow> i < length fs \<and> f_faceid (fs ! i) = fid"
  by (induction fs arbitrary: i) (auto split: if_splits)

lemma seek_forwarding_result:
  "seek_forwarding npe fid = (npe', i) \<Longrightarrow>
     i < length (forwarding npe') \<and> f_faceid (forwarding npe' ! i) = fid"
  by (auto simp: seek_forwarding_def dest: find_forwarding_Some split: option.splits)

lemma ccnd_reg_prefix_result:
  assumes "ccnd_reg_prefix h nm n fid flgs expir = (h1, Some k)"
  shows "k = take n nm \<and> (\<exists>npe f. map_of (nameprefix_tab h1) k = Some npe \<and>
           f \<in> set (forwarding npe) \<and> f_faceid f = fid \<and> expires f = expir \<and>
           f_flags f AND CCN_FORW_ACTIVE \<noteq> 0)"
proof -
  from assms obtain h0 where
    seek: "nameprefix_seek h nm n = (h0, Some k)" and
    h1: "h1 = npe_update (h0\<lparr>forward_to_gen := forward_to_gen h0 + 1\<rparr>) k
                (\<lambda>npe. let nf = seek_forwarding npe fid; npe' = fst nf; i = snd nf in
                   npe'\<lparr>forwarding := (forwarding npe')[i :=
                     (forwarding npe' ! i)\<lparr>expires := expir,
                        f_flags := f_flags (forwarding npe' ! i) OR
                          (CCN_FORW_REFRESHED OR CCN_FORW_ACTIVE OR flgs)\<rparr>]\<rparr>)"
    by (auto simp: ccnd_reg_prefix_def split: if_splits prod.splits option.splits)
  from nameprefix_seek_result [OF seek] obtain npe0 where
    k: "k = take n nm" and npe0: "map_of (nameprefix_tab h0) k = Some npe0"
    by auto
  obtain npe' i where sf: "seek_forwarding npe0 fid = (npe', i)"
    by (cases "seek_forwarding npe0 fid")
  note r = seek_forwarding_result [OF sf]
  let ?f = "(forwarding npe' ! i)\<lparr>expires := expir,
                        f_flags := f_flags (forwarding npe' ! i) OR
                          (CCN_FORW_REFRESHED OR CCN_FORW_ACTIVE OR flgs)\<rparr>"
  have "map_of (nameprefix_tab h1) k =
      Some (npe'\<lparr>forwarding := (forwarding npe')[i := ?f]\<rparr>)"
    by (simp add: h1 npe_update_def map_of_map_entry_same npe0 sf Let_def)
  moreover have "?f \<in> set ((forwarding npe')[i := ?f])"
    using r by (simp add: set_update_memI)
  moreover have "f_flags ?f AND CCN_FORW_ACTIVE \<noteq> 0"
  proof -
    have "bit (f_flags ?f AND CCN_FORW_ACTIVE) 0"
      by (simp add: forw_flag_defs bit_simps)
    then show ?thesis by auto
  qed
  ultimately show ?thesis using r k by auto
qed

text \<open>
  Claim C10.  When \<open>ccnd_req_prefixreg\<close> answers a request (non-null result), the prefix
  of the request is registered for the requested face with an expiry that is the lifetime
  of the request after normalisation: 60 for a negative lifetime, 300 for a lifetime above
  3600 and below \<open>2^30\<close>, and the lifetime itself otherwise (from 0 to 3600, and from
  \<open>2^30\<close> on).  The reply carries the same lifetime.
\<close>

theorem ccnd_req_prefixreg_lifetime:
  assumes "snd (ccnd_req_prefixreg cid h (Some fe)) = Some r"
  shows "\<exists>nm npe f. name_prefix fe = Some (Some nm) \<and>
           map_of (nameprefix_tab (fst (ccnd_req_prefixreg cid h (Some fe)))) nm = Some npe \<and>
           f \<in> set (forwarding npe) \<and> f_faceid f = fe_faceid fe \<and>
           expires f = (if lifetime fe < 0 then 60
                        else if 3600 < lifetime fe \<and> lifetime fe < 2 ^ 30 then 300
                        else lifetime fe) \<and>
           lifetime r = expires f"
proof -
  define L where "L = (if lifetime fe < 0 then 60
                        else if 3600 < lifetime fe \<and> lifetime fe < 2 ^ 30 then 300
                        else lifetime fe)"
  define fl where "fl = (if fe_flags fe < 0 then 0 else fe_flags fe)"
  from assms obtain nm face h1 k where
    nm: "name_prefix fe = Some (Some nm)" and
    face: "face_from_faceid h (fe_faceid fe) = Some face" and
    reg: "ccnd_reg_prefix h nm (length nm) (faceid face) (word_of_int fl) L = (h1, Some k)" and
    res: "ccnd_req_prefixreg cid h (Some fe) = (h1, Some r)" and
    r: "lifetime r = L"
    unfolding L_def fl_def
    by (auto simp: ccnd_req_prefixreg_def Let_def
             split: if_splits option.splits prod.splits)
  from ccnd_reg_prefix_result [OF reg] face_from_faceid_Some [OF face]
  show ?thesis
    unfolding L_def [symmetric] by (auto simp: nm res r)
qed

theorem ccnd_req_prefixreg_lifetime_witness:
  "\<exists>r npe f. snd (ccnd_req_prefixreg [] example_handle (Some example_prefixreg)) = Some r \<and>
     map_of (nameprefix_tab (fst (ccnd_req_prefixreg [] example_handle (Some example_prefixreg))))
       [[97]] = Some npe \<and>
     f \<in> set (forwarding npe) \<and> f_faceid f = 1 \<and> expires f = 300 \<and> lifetime r = 300"
proof -
  have ex: "\<exists>r. snd (ccnd_req_prefixreg [] example_handle (Some example_prefixreg)) = Some r"
    by (simp add: ccnd_req_prefixreg_def example_handle_def example_prefixreg_def
        example_face_def face_from_faceid_def MAXFACES_def FACESLOTBITS_def face_flag_defs
        ccnd_reg_prefix_def forw_flag_defs nameprefix_seek_def nameprefix_seek_step_def
        npe_update_def nrand48_def Let_def)
  then obtain r where
    r: "snd (ccnd_req_prefixreg [] example_handle (Some example_prefixreg)) = Some r" ..
  from ccnd_req_prefixreg_lifetime [OF r] r show ?thesis
    by (auto simp: example_prefixreg_def)
qed

subsection \<open>The cached outbound set\<close>

lemma set_fold_set_insert:
  "set (fold (\<lambda>f x. if P f then ccn_indexbuf_set_insert x (f_faceid f) else x) fs x) =
     set x \<union> {f_faceid f |f. f \<in> set fs \<and> P f}"
  by (induction fs arbitrary: x) (auto simp: ccn_indexbuf_set_insert_def)

lemma parents_linkedD:
  assumes "parents_linked tab" "map_of tab k = Some e"
  shows "parent e = (if k = [] then None else Some (butlast k))"
    and "k \<noteq> [] \<Longrightarrow> map_of tab (butlast k) \<noteq> None"
  using assms map_of_SomeD [OF assms(2)] by (auto simp: parents_linked_def)

lemma update_inherited_step:
  assumes "map_of (nameprefix_tab h) k = Some e"
  shows "\<exists>x1. update_inherited h (Some k) x = update_inherited h (parent e) x1 \<and>
           set x1 = set x \<union> inherited_here h k"
proof -
  let ?x1 = "fold (\<lambda>f x.
                    if f_flags f AND (CCN_FORW_CHILD_INHERIT OR CCN_FORW_ACTIVE) =
                         (CCN_FORW_CHILD_INHERIT OR CCN_FORW_ACTIVE) \<and>
                       face_from_faceid h (f_faceid f) \<noteq> None
                    then ccn_indexbuf_set_insert x (f_faceid f) else x)
                  (forwarding e) x"
  have "update_inherited h (Some k) x = update_inherited h (parent e) ?x1"
    by (subst update_inherited.simps) (simp add: assms)
  moreover have "set ?x1 = set x \<union> inherited_here h k"
    by (auto simp: set_fold_set_insert inherited_here_def assms)
  ultimately show ?thesis by blast
qed

lemma update_inherited_returns:
  assumes ok: "parents_linked (nameprefix_tab h)"
  shows "map_of (nameprefix_tab h) k \<noteq> None \<Longrightarrow>
     \<exists>x'. update_inherited h (Some k) x = Some x' \<and>
       set x' = set x \<union> (\<Union>i\<le>length k. inherited_here h (take i k))"
proof (induction k arbitrary: x rule: rev_induct)
  case Nil
  then obtain e where e: "map_of (nameprefix_tab h) [] = Some e" by auto
  from parents_linkedD(1) [OF ok e] have p: "parent e = None" by simp
  from update_inherited_step [OF e, of x] obtain x1 where
    "update_inherited h (Some []) x = update_inherited h None x1"
    "set x1 = set x \<union> inherited_here h []" unfolding p by blast
  then show ?case by (simp add: update_inherited.simps)
next
  case (snoc c ks)
  then obtain e where e: "map_of (nameprefix_tab h) (ks @ [c]) = Some e" by auto
  from parents_linkedD [OF ok e] have p: "parent e = Some ks"
    and ks: "map_of (nameprefix_tab h) ks \<noteq> None" by auto
  from update_inherited_step [OF e, of x] obtain x1 where
    x1: "update_inherited h (Some (ks @ [c])) x = update_inherited h (Some ks) x1"
        "set x1 = set x \<union> inherited_here h (ks @ [c])" unfolding p by blast
  from snoc.IH [OF ks, of x1] obtain x' where
    x': "update_inherited h (Some ks) x1 = Some x'"
        "set x' = set x1 \<union> (\<Union>i\<le>length ks. inherited_here h (take i ks))" by blast
  have "(\<Union>i\<le>length (ks @ [c]). inherited_here h (take i (ks @ [c]))) =
        inherited_here h (ks @ [c]) \<union> (\<Union>i\<le>length ks. inherited_here h (take i ks))"
    by (simp add: atMost_Suc)
  with x1 x' show ?case by auto
qed

lemma ancestors_eq:
  assumes "k \<noteq> []"
  shows "(\<Union>i\<le>length (butlast k). inherited_here h (take i (butlast k))) =
     (\<Union>i<length k. inherited_here h (take i k))"
proof -
  from assms obtain ks c where k: "k = ks @ [c]" by (cases k rule: rev_cases) auto
  have "{..<Suc (length ks)} = {..length ks}" by (rule lessThan_Suc_atMost)
  then show ?thesis by (simp add: k)
qed

lemma update_forward_to_result:
  assumes ok: "parents_linked (nameprefix_tab h)"
    and npe: "map_of (nameprefix_tab h) k = Some npe"
  shows "\<exists>h' npe'. update_forward_to h k = Some h' \<and>
           map_of (nameprefix_tab h') k = Some npe' \<and>
           (case forward_to npe' of None \<Rightarrow> {} | Some x \<Rightarrow> set x) =
              active_here h k \<union> (\<Union>i<length k. inherited_here h (take i k)) \<and>
           fgen npe' = forward_to_gen h \<and>
           faces_by_faceid h' = faces_by_faceid h \<and>
           forward_to_gen h' = forward_to_gen h"
proof -
  let ?x = "fold (\<lambda>f x.
                     if f_flags f AND CCN_FORW_ACTIVE \<noteq> 0 \<and>
                        face_from_faceid h (f_faceid f) \<noteq> None
                     then ccn_indexbuf_set_insert x (f_faceid f) else x)
                   (forwarding npe) []"
  have sx: "set ?x = active_here h k"
    by (auto simp: set_fold_set_insert active_here_def npe)
  have "\<exists>x'. update_inherited h (parent npe) ?x = Some x' \<and>
          set x' = set ?x \<union> (\<Union>i<length k. inherited_here h (take i k))"
  proof (cases "k = []")
    case True
    with parents_linkedD(1) [OF ok npe] show ?thesis
      by (simp add: update_inherited.simps)
  next
    case False
    with parents_linkedD [OF ok npe] have p: "parent npe = Some (butlast k)"
      and b: "map_of (nameprefix_tab h) (butlast k) \<noteq> None" by auto
    from update_inherited_returns [OF ok b, of ?x] ancestors_eq [OF False, of h]
    show ?thesis by (simp add: p)
  qed
  then obtain x' where x': "update_inherited h (parent npe) ?x = Some x'"
    and sx': "set x' = set ?x \<union> (\<Union>i<length k. inherited_here h (take i k))" by blast
  have u: "update_forward_to h k = Some (npe_update h k
                    (\<lambda>e. e\<lparr>forward_to := (if x' = [] then None else Some x'),
                            fgen := forward_to_gen h\<rparr>))"
    using x' by (simp add: update_forward_to_def npe Let_def)
  show ?thesis
    unfolding u using sx sx'
    by (auto simp: npe_update_def map_of_map_entry_same npe)
qed

lemma face_from_faceid_faces:
  "faces_by_faceid h' = faces_by_faceid h \<Longrightarrow> face_from_faceid h' = face_from_faceid h"
  by (auto simp: face_from_faceid_def Let_def fun_eq_iff)

lemma set_fold_append_faces:
  "set (fold (\<lambda>fid x. case face_from_faceid h fid of None \<Rightarrow> x
                | Some face \<Rightarrow> if P face then ccn_indexbuf_append_element x (faceid face) else x)
          fs x) =
   set x \<union> {v \<in> set fs. \<exists>face. face_from_faceid h v = Some face \<and> P face}"
proof (induction fs arbitrary: x)
  case Nil
  then show ?case by simp
next
  case (Cons a fs)
  show ?case
    by (cases "face_from_faceid h a")
       (auto simp: Cons.IH ccn_indexbuf_append_element_def dest: face_from_faceid_Some)
qed

lemma get_outbound_faces_result:
  assumes ok: "parents_linked (nameprefix_tab h)"
    and npe: "map_of (nameprefix_tab h) k = Some npe"
    and stale: "fgen npe \<noteq> forward_to_gen h"
    and scope: "scope pi \<noteq> 0"
  shows "\<exists>h' x. get_outbound_faces h from pi k = Some (h', x) \<and>
           set x = {v \<in> active_here h k \<union> (\<Union>i<length k. inherited_here h (take i k)).
                     Some v \<noteq> from \<and>
                     (scope pi = 1 \<longrightarrow> (\<exists>face. face_from_faceid h v = Some face \<and>
                         flags face AND CCN_FACE_GG = CCN_FACE_GG))}"
proof -
  from update_forward_to_result [OF ok npe] obtain h' npe' where
    u: "update_forward_to h k = Some h'" and
    npe': "map_of (nameprefix_tab h') k = Some npe'" and
    ft: "(case forward_to npe' of None \<Rightarrow> {} | Some x \<Rightarrow> set x) =
              active_here h k \<union> (\<Union>i<length k. inherited_here h (take i k))" and
    faces: "faces_by_faceid h' = faces_by_faceid h" by blast
  note ff = face_from_faceid_faces [OF faces]
  have alive: "\<And>v. v \<in> active_here h k \<union> (\<Union>i<length k. inherited_here h (take i k)) \<Longrightarrow>
                 \<exists>face. face_from_faceid h v = Some face"
    by (auto simp: active_here_def inherited_here_def)
  show ?thesis
  proof (cases "forward_to npe' = None \<or> forward_to npe' = Some []")
    case True
    with ft have "active_here h k \<union> (\<Union>i<length k. inherited_here h (take i k)) = {}"
      by auto
    moreover from True have "get_outbound_faces h from pi k = Some (h', [])"
      using scope stale by (auto simp: get_outbound_faces_def npe u npe')
    ultimately show ?thesis by simp
  next
    case False
    then obtain xs where xs: "forward_to npe' = Some xs" "xs \<noteq> []" by auto
    with ft have sxs: "set xs = active_here h k \<union> (\<Union>i<length k. inherited_here h (take i k))"
      by simp
    let ?cm = "if scope pi = 1 then CCN_FACE_GG else 0"
    let ?x = "fold (\<lambda>fid x.
                            case face_from_faceid h' fid of
                              None \<Rightarrow> x
                            | Some face \<Rightarrow>
                                if Some (faceid face) \<noteq> from \<and>
                                   flags face AND ?cm = ?cm
                                then ccn_indexbuf_append_element x (faceid face) else x)
                          (rev xs) []"
    have g: "get_outbound_faces h from pi k = Some (h', ?x)"
      using scope stale xs by (simp add: get_outbound_faces_def npe u npe' Let_def)
    have "set ?x = {v \<in> set xs. \<exists>face. face_from_faceid h v = Some face \<and>
                       Some (faceid face) \<noteq> from \<and> flags face AND ?cm = ?cm}"
      by (simp add: set_fold_append_faces ff)
    also have "\<dots> = {v \<in> set xs. Some v \<noteq> from \<and>
                     (scope pi = 1 \<longrightarrow> (\<exists>face. face_from_faceid h v = Some face \<and>
                         flags face AND CCN_FACE_GG = CCN_FACE_GG))}"
      using alive unfolding sxs by (auto dest: face_from_faceid_Some)
    finally show ?thesis using g sxs by auto
  qed
qed

lemma set_map_entry_parent:
  assumes "\<And>e. parent (g e) = parent e"
  shows "(k', e') \<in> set (AList.map_entry k g tab) \<Longrightarrow>
           \<exists>e. (k', e) \<in> set tab \<and> parent e' = parent e"
  using assms by (induction tab) (auto split: if_splits)

lemma map_of_map_entry_None:
  "map_of (AList.map_entry k g tab) k' = None \<longleftrightarrow> map_of tab k' = None"
  by (induction tab) auto

lemma parents_linked_map_entry:
  assumes "\<And>e. parent (g e) = parent e" "parents_linked tab"
  shows "parents_linked (AList.map_entry k g tab)"
  unfolding parents_linked_def
proof (clarify)
  fix k' e' assume "(k', e') \<in> set (AList.map_entry k g tab)"
  from set_map_entry_parent [OF assms(1) this] obtain e where
    "(k', e) \<in> set tab" "parent e' = parent e" by blast
  with assms(2) show "parent e' = (if k' = [] then None else Some (butlast k')) \<and>
       (k' \<noteq> [] \<longrightarrow> map_of (AList.map_entry k g tab) (butlast k') \<noteq> None)"
    by (auto simp: parents_linked_def map_of_map_entry_None)
qed

lemma parents_linked_append:
  assumes "parents_linked tab"
    and "parent e = (if k = [] then None else Some (butlast k))"
    and "k \<noteq> [] \<longrightarrow> map_of tab (butlast k) \<noteq> None"
  shows "parents_linked (tab @ [(k, e)])"
  using assms by (auto simp: parents_linked_def map_add_def split: option.splits)

lemma parents_linked_seek_step:
  assumes "parents_linked (nameprefix_tab (fst hp))"
    and "k = [] \<Longrightarrow> snd hp = None"
    and "k \<noteq> [] \<Longrightarrow> snd hp = Some (butlast k) \<and> map_of (nameprefix_tab (fst hp)) (butlast k) \<noteq> None"
  shows "parents_linked (nameprefix_tab (fst (nameprefix_seek_step k hp)))"
proof (cases "map_of (nameprefix_tab (fst hp)) k")
  case (Some a)
  then show ?thesis using assms(1) by (simp add: nameprefix_seek_step_def Let_def)
next
  case None
  show ?thesis
  proof (cases "k = []")
    case True
    with assms(2) None show ?thesis
      by (auto simp: nameprefix_seek_step_def Let_def split: prod.splits
               intro!: parents_linked_append [OF assms(1)])
  next
    case False
    with assms(3) obtain p where p: "snd hp = Some (butlast k)"
      "map_of (nameprefix_tab (fst hp)) (butlast k) = Some p" by auto
    have "parents_linked (AList.map_entry (butlast k) (\<lambda>e. e\<lparr>children := children e + 1\<rparr>)
             (nameprefix_tab (fst hp)))"
      by (rule parents_linked_map_entry [OF _ assms(1)]) simp
    then show ?thesis using None p False
      by (auto simp: nameprefix_seek_step_def Let_def npe_update_def map_of_map_entry_same
               intro!: parents_linked_append)
  qed
qed

lemma parents_linked_seek_fold:
  assumes "parents_linked (nameprefix_tab h)" "n \<le> length nm"
  shows "parents_linked (nameprefix_tab (fst
            (fold nameprefix_seek_step (map (\<lambda>i. take i nm) [0..<Suc n]) (h, None))))"
  using assms(2)
proof (induction n)
  case 0
  show ?case using assms(1) by (auto intro!: parents_linked_seek_step)
next
  case (Suc n)
  let ?hp = "fold nameprefix_seek_step (map (\<lambda>i. take i nm) [0..<Suc n]) (h, None)"
  from Suc have IH: "parents_linked (nameprefix_tab (fst ?hp))" by simp
  have hp: "?hp = nameprefix_seek_step (take n nm)
        (fold nameprefix_seek_step (map (\<lambda>i. take i nm) [0..<n]) (h, None))"
    by simp
  from nameprefix_seek_step_result [of "take n nm"
        "fold nameprefix_seek_step (map (\<lambda>i. take i nm) [0..<n]) (h, None)"]
  have r: "snd ?hp = Some (take n nm)" "map_of (nameprefix_tab (fst ?hp)) (take n nm) \<noteq> None"
    unfolding hp by auto
  have b: "butlast (take (Suc n) nm) = take n nm"
    using Suc.prems by (simp add: butlast_take)
  have ne: "take (Suc n) nm \<noteq> []" using Suc.prems by auto
  have "parents_linked (nameprefix_tab (fst (nameprefix_seek_step (take (Suc n) nm) ?hp)))"
    by (rule parents_linked_seek_step [OF IH]) (use r b ne in auto)
  then show ?case by simp
qed

lemma parents_linked_nameprefix_seek:
  assumes "parents_linked (nameprefix_tab h)"
  shows "parents_linked (nameprefix_tab (fst (nameprefix_seek h nm n)))"
  using assms parents_linked_seek_fold [OF assms, of n nm]
  by (auto simp: nameprefix_seek_def)

lemma parent_seek_forwarding [simp]:
  "parent (fst (seek_forwarding e fid)) = parent e"
  by (simp add: seek_forwarding_def split: option.splits)

lemma parents_linked_ccnd_reg_prefix:
  assumes "parents_linked (nameprefix_tab h)"
  shows "parents_linked (nameprefix_tab (fst (ccnd_reg_prefix h nm n fid flgs expir)))"
proof -
  have "parents_linked (nameprefix_tab (fst (nameprefix_seek h nm n)))"
    by (rule parents_linked_nameprefix_seek [OF assms])
  then show ?thesis using assms
    by (auto simp: ccnd_reg_prefix_def npe_update_def Let_def split: prod.splits option.splits
             intro!: parents_linked_map_entry)
qed

text \<open>
  Claim C4.  On a table whose parent links are as \<open>nameprefix_seek\<close> makes them,
  \<open>update_forward_to\<close> returns, and afterwards the cached \<open>forward_to\<close> of the entry holds
  exactly the faces of its own ACTIVE records on live faces together with the faces of the
  ACTIVE and CHILD\_INHERIT records, on live faces, of every shorter prefix.  Consequently,
  when the cache is stale and the scope of the Interest is not 0, \<open>get_outbound_faces\<close>
  yields exactly those faces, less the arrival face and, for scope 1, less the faces that
  are not friendly: a face registered on an ancestor with CHILD\_INHERIT and ACTIVE is in
  the outbound set of an Interest whose entry has no forwarding record of its own.
\<close>

theorem update_forward_to_union:
  assumes "parents_linked (nameprefix_tab h)"
    and "map_of (nameprefix_tab h) k = Some npe"
  shows "\<exists>h' npe'. update_forward_to h k = Some h' \<and>
           map_of (nameprefix_tab h') k = Some npe' \<and>
           (case forward_to npe' of None \<Rightarrow> {} | Some x \<Rightarrow> set x) =
              active_here h k \<union> (\<Union>i<length k. inherited_here h (take i k)) \<and>
           (fgen npe \<noteq> forward_to_gen h \<and> scope pi \<noteq> 0 \<longrightarrow>
              (\<exists>x. get_outbound_faces h from pi k = Some (h', x) \<and>
                 set x = {v \<in> active_here h k \<union> (\<Union>i<length k. inherited_here h (take i k)).
                     Some v \<noteq> from \<and>
                     (scope pi = 1 \<longrightarrow> (\<exists>face. face_from_faceid h v = Some face \<and>
                         flags face AND CCN_FACE_GG = CCN_FACE_GG))}))"
proof -
  from update_forward_to_result [OF assms] obtain h' npe' where
    u: "update_forward_to h k = Some h'" "map_of (nameprefix_tab h') k = Some npe'"
      "(case forward_to npe' of None \<Rightarrow> {} | Some x \<Rightarrow> set x) =
              active_here h k \<union> (\<Union>i<length k. inherited_here h (take i k))" by blast
  have "\<exists>x. get_outbound_faces h from pi k = Some (h', x) \<and>
                 set x = {v \<in> active_here h k \<union> (\<Union>i<length k. inherited_here h (take i k)).
                     Some v \<noteq> from \<and>
                     (scope pi = 1 \<longrightarrow> (\<exists>face. face_from_faceid h v = Some face \<and>
                         flags face AND CCN_FACE_GG = CCN_FACE_GG))}"
    if "fgen npe \<noteq> forward_to_gen h" "scope pi \<noteq> 0"
  proof -
    from get_outbound_faces_result [OF assms that, of "from"] obtain h'' x where
      g: "get_outbound_faces h from pi k = Some (h'', x)"
        "set x = {v \<in> active_here h k \<union> (\<Union>i<length k. inherited_here h (take i k)).
                     Some v \<noteq> from \<and>
                     (scope pi = 1 \<longrightarrow> (\<exists>face. face_from_faceid h v = Some face \<and>
                         flags face AND CCN_FACE_GG = CCN_FACE_GG))}" by blast
    from g(1) that u(1) have "h'' = h'"
      by (auto simp: get_outbound_faces_def assms(2) split: option.splits if_splits)
    with g show ?thesis by blast
  qed
  with u show ?thesis by blast
qed

lemmas eval_defs = example_fib_def example_handle_def example_face_def face_from_faceid_def MAXFACES_def FACESLOTBITS_def face_flag_defs
        ccnd_reg_prefix_def forw_flag_defs nameprefix_seek_def nameprefix_seek_step_def
        npe_update_def nrand48_def Let_def seek_forwarding_def upt_rec

lemma example_fib_tab:
  "nameprefix_tab example_fib =
     [([], \<lparr>propagating_head = None, forward_to = None, forwarding = [],
          parent = None, children = 1, fgen = - 1, src = - 1, osrc = - 1, usec = 12150\<rparr>),
      ([[97]], \<lparr>propagating_head = None, forward_to = None,
          forwarding = [\<lparr>f_faceid = 1, f_flags = 65539, expires = 300\<rparr>],
          parent = Some [], children = 1, fgen = - 1, src = - 1, osrc = - 1, usec = 12150\<rparr>),
      ([[97], [98]], \<lparr>propagating_head = None, forward_to = None, forwarding = [],
          parent = Some [[97]], children = 1, fgen = 0, src = - 1, osrc = - 1, usec = 12150\<rparr>),
      ([[97], [98], [99]], \<lparr>propagating_head = None, forward_to = None, forwarding = [],
          parent = Some [[97], [98]], children = 0, fgen = 0, src = - 1, osrc = - 1,
          usec = 12150\<rparr>)]"
  by (simp add: eval_defs)

lemma example_fib_faces:
  "faces_by_faceid example_fib = faces_by_faceid example_handle"
  "forward_to_gen example_fib = 1"
  by (simp_all add: eval_defs)

theorem update_forward_to_union_witness:
  "parents_linked (nameprefix_tab example_fib) \<and>
   (\<exists>npe h' npe' x. map_of (nameprefix_tab example_fib) [[97], [98], [99]] = Some npe \<and>
      forwarding npe = [] \<and> fgen npe \<noteq> forward_to_gen example_fib \<and> scope example_pi \<noteq> 0 \<and>
      update_forward_to example_fib [[97], [98], [99]] = Some h' \<and>
      map_of (nameprefix_tab h') [[97], [98], [99]] = Some npe' \<and>
      (case forward_to npe' of None \<Rightarrow> {} | Some x \<Rightarrow> set x) = {1} \<and>
      get_outbound_faces example_fib (Some 2) example_pi [[97], [98], [99]] = Some (h', x) \<and>
      set x = {1})"
proof -
  let ?k = "[[97], [98], [99]] :: name"
  have ok: "parents_linked (nameprefix_tab example_fib)"
    by (simp add: example_fib_tab parents_linked_def)
  obtain npe where npe: "map_of (nameprefix_tab example_fib) ?k = Some npe"
    and fw: "forwarding npe = []" and st: "fgen npe \<noteq> forward_to_gen example_fib"
    by (simp add: example_fib_tab example_fib_faces)
  have sc: "scope example_pi \<noteq> 0" by (simp add: example_pi_def)
  have a: "active_here example_fib ?k = {}"
    by (simp add: active_here_def example_fib_tab)
  have i0: "inherited_here example_fib [] = {}"
    and i2: "inherited_here example_fib [[97], [98]] = {}"
    by (simp_all add: inherited_here_def example_fib_tab)
  have i1: "inherited_here example_fib [[97]] = {1}"
    by (auto simp: inherited_here_def example_fib_tab example_fib_faces example_handle_def
        example_face_def face_from_faceid_def MAXFACES_def FACESLOTBITS_def forw_flag_defs)
  have u: "(\<Union>i<length ?k. inherited_here example_fib (take i ?k)) = {1}"
    by (simp add: lessThan_Suc i0 i1 i2)
  from update_forward_to_union [OF ok npe, of example_pi "Some 2"] st sc
  show ?thesis
    unfolding a u using ok npe fw by (auto simp: example_pi_def)
qed

subsection \<open>Protocol data units\<close>

lemma process_input_message_unwrapped:
  "process_input_message hs h face m False = deliver_unwrapped hs face m h"
proof (cases m)
  case (Dtag numval body)
  then show ?thesis
    by (cases numval) (simp_all add: deliver_unwrapped_def)
qed (simp_all add: deliver_unwrapped_def)

lemma pdu_loop_fold:
  "pdu_loop hs h face ms =
     fold (deliver_unwrapped hs face) (takeWhile (\<lambda>m. m \<noteq> Junk) ms) h"
  by (induction ms arbitrary: h) (simp_all add: process_input_message_unwrapped)

text \<open>
  Claim C8.  A protocol data unit received with \<open>pdu_ok\<close> set marks the face as a link
  face, not friendly any more, and hands each message of its content, up to the first
  one that does not decode, to \<open>process_input_message\<close> with \<open>pdu_ok = 0\<close>: Interest,
  ContentObject and Inject messages reach the handlers that they reach when they arrive
  alone, and a protocol data unit inside is not unwrapped but discarded as an unknown
  message, whatever it contains.
\<close>

theorem process_input_message_pdu_depth:
  "process_input_message hs h face (Dtag CCN_DTAG_CCNProtocolDataUnit body) True =
     fold (deliver_unwrapped hs face) (takeWhile (\<lambda>m. m \<noteq> Junk) body)
       (face_update h face (\<lambda>f. f\<lparr>flags := (flags f OR CCN_FACE_LINK) AND NOT CCN_FACE_GG\<rparr>)) \<and>
   process_input_message hs h face (Dtag CCN_DTAG_CCNProtocolDataUnit inner) False =
     ccnd_msg h ''discarding unknown message'' \<and>
   deliver_unwrapped hs face (Dtag CCN_DTAG_CCNProtocolDataUnit inner) h =
     ccnd_msg h ''discarding unknown message'' \<and>
   process_input_message hs h face (Dtag CCN_DTAG_Interest b) pdu_ok =
     deliver_unwrapped hs face (Dtag CCN_DTAG_Interest b) h \<and>
   process_input_message hs h face (Dtag CCN_DTAG_ContentObject b) pdu_ok =
     deliver_unwrapped hs face (Dtag CCN_DTAG_ContentObject b) h \<and>
   process_input_message hs h face (Dtag CCN_DTAG_Inject b) pdu_ok =
     deliver_unwrapped hs face (Dtag CCN_DTAG_Inject b) h"
  by (simp add: pdu_loop_fold deliver_unwrapped_def)

subsection \<open>Evaluation of the example states\<close>

lemmas pit_defs = process_incoming_interest_def is_duplicate_flooded_def
  nameprefix_longest_match_def get_outbound_faces_def update_forward_to_def
  propagate_interest_def adjust_outbound_for_existing_interests_def propagating_list_def
  reorder_outbound_using_history_def ccn_indexbuf_move_to_end_def
  ccn_indexbuf_set_insert_def ccn_indexbuf_append_element_def
  link_propagating_interest_to_nameprefix_def pe_next_usec_def pe_update_def
  face_update_def nonce_element_def ccn_charbuf_append_tt_def random_nonce_def
  CCN_DTAG_def CCN_BLOB_def CCN_DTAG_Nonce_def CCN_CLOSE_def
  CCN_INTEREST_LIFETIME_MICROSEC_def CCN_AOK_CS_def CCN_AOK_EXPIRE_def
  example_msg_def example_pi_def no_cs_def all_match_def similar_interest_def
  ccnd_msg_def update_inherited.simps List.map_filter_def

lemma example_fib_val:
  "example_fib = example_handle
     \<lparr>forward_to_gen := 1,
      nameprefix_tab :=
        [([], \<lparr>propagating_head = None, forward_to = None, forwarding = [],
            parent = None, children = 1, fgen = - 1, src = - 1, osrc = - 1, usec = 12150\<rparr>),
         ([[97]], \<lparr>propagating_head = None, forward_to = None,
            forwarding = [\<lparr>f_faceid = 1, f_flags = 65539, expires = 300\<rparr>],
            parent = Some [], children = 1, fgen = - 1, src = - 1, osrc = - 1, usec = 12150\<rparr>),
         ([[97], [98]], \<lparr>propagating_head = None, forward_to = None, forwarding = [],
            parent = Some [[97]], children = 1, fgen = 0, src = - 1, osrc = - 1, usec = 12150\<rparr>),
         ([[97], [98], [99]], \<lparr>propagating_head = None, forward_to = None, forwarding = [],
            parent = Some [[97], [98]], children = 0, fgen = 0, src = - 1, osrc = - 1,
            usec = 12150\<rparr>)],
      seed := 25214903928\<rparr>"
  by (simp add: eval_defs)

text \<open>The state after the Interest \<open>example_msg 7\<close> from the face \<open>fid\<close> (2 or 3).\<close>

lemma example_pit_step:
  "fid = 2 \<or> fid = 3 \<Longrightarrow>
   process_incoming_interest all_match no_cs example_fib fid (example_msg 7) (Some example_pi) =
   Some (example_fib
     \<lparr>faces_by_faceid := (faces_by_faceid example_fib)
        [unat fid := map_option (\<lambda>f. f\<lparr>pending_interests := 1\<rparr>)
                       (faces_by_faceid example_fib ! unat fid)],
      nameprefix_tab := (butlast (nameprefix_tab example_fib)) @ [([[97], [98], [99]], example_npe)],
      propagating_tab :=
        [(nonce_element [7, 7, 7, 7, 7, 7],
          \<lparr>outbound = Some [1], interest_msg = Some (example_msg 7), pe_size = 14,
            pe_flags = 0, pe_faceid = fid, pe_usec = 3998905\<rparr>)],
      sched := [\<lparr>ev_usec = 1095, ev_action = Do_propagate (nonce_element [7, 7, 7, 7, 7, 7]),
                 ev_int = 12150\<rparr>],
      seed := 206026503483683,
      interests_accepted := 1\<rparr>)"
  by (erule disjE) (simp_all add: example_fib_val example_handle_def example_face_def
      example_npe_def pit_defs face_from_faceid_def MAXFACES_def FACESLOTBITS_def face_flag_defs
      forw_flag_defs nameprefix_seek_def nameprefix_seek_step_def npe_update_def nrand48_def
      Let_def upt_rec)

lemma example_pit_val:
  "example_pit = example_fib
     \<lparr>faces_by_faceid := (faces_by_faceid example_fib)
        [2 := Some ((example_face 2 (CCN_FACE_GG OR CCN_FACE_LOCAL))\<lparr>pending_interests := 1\<rparr>)],
      nameprefix_tab := (butlast (nameprefix_tab example_fib)) @ [([[97], [98], [99]], example_npe)],
      propagating_tab :=
        [(nonce_element [7, 7, 7, 7, 7, 7],
          \<lparr>outbound = Some [1], interest_msg = Some (example_msg 7), pe_size = 14,
            pe_flags = 0, pe_faceid = 2, pe_usec = 3998905\<rparr>)],
      sched := [\<lparr>ev_usec = 1095, ev_action = Do_propagate (nonce_element [7, 7, 7, 7, 7, 7]),
                 ev_int = 12150\<rparr>],
      seed := 206026503483683,
      interests_accepted := 1\<rparr>"
  unfolding example_pit_def
  by (subst example_pit_step) (simp_all add: example_fib_val example_handle_def example_face_def)

lemma example_pit_link_val:
  "example_pit_link = example_fib
     \<lparr>faces_by_faceid := (faces_by_faceid example_fib)
        [3 := Some ((example_face 3 (CCN_FACE_LINK OR CCN_FACE_DGRAM OR CCN_FACE_INET))
                      \<lparr>pending_interests := 1\<rparr>)],
      nameprefix_tab := (butlast (nameprefix_tab example_fib)) @ [([[97], [98], [99]], example_npe)],
      propagating_tab :=
        [(nonce_element [7, 7, 7, 7, 7, 7],
          \<lparr>outbound = Some [1], interest_msg = Some (example_msg 7), pe_size = 14,
            pe_flags = 0, pe_faceid = 3, pe_usec = 3998905\<rparr>)],
      sched := [\<lparr>ev_usec = 1095, ev_action = Do_propagate (nonce_element [7, 7, 7, 7, 7, 7]),
                 ev_int = 12150\<rparr>],
      seed := 206026503483683,
      interests_accepted := 1\<rparr>"
  unfolding example_pit_link_def
  by (subst example_pit_step) (simp_all add: example_fib_val example_handle_def example_face_def)

lemmas example_vals = example_fib_val example_handle_def example_face_def example_npe_def
  example_msg_def example_pi_def nonce_element_def ccn_charbuf_append_tt_def
  CCN_DTAG_def CCN_BLOB_def CCN_DTAG_Nonce_def CCN_CLOSE_def face_flag_defs

subsection \<open>Similar interests\<close>

lemma adjust_loop_same_face:
  assumes "ob \<noteq> []"
    and "\<forall>p\<in>set ps. similar_interest msg pi p \<longrightarrow> pe_faceid p = faceid face"
  shows "adjust_loop h face msg pi npe mx ps k e ob =
     (if length (filter (similar_interest msg pi) ps) = 0 then (e, ob)
      else if k + int (length (filter (similar_interest msg pi) ps)) < mx
        then (e + of_nat (length (filter (similar_interest msg pi) ps)) * (usec npe + 20000), ob)
      else (0, []))"
  using assms
proof (induction ps arbitrary: k e)
  case Nil
  then show ?case by simp
next
  case (Cons p ps)
  show ?case
  proof (cases "similar_interest msg pi p")
    case False
    with Cons show ?thesis by simp
  next
    case True
    with Cons.prems have same: "faceid face = pe_faceid p" by simp
    show ?thesis
    proof (cases "k + 1 < mx")
      case False
      with True same Cons.prems show ?thesis by simp
    next
      case lt: True
      from Cons.prems have "\<forall>p\<in>set ps. similar_interest msg pi p \<longrightarrow> pe_faceid p = faceid face"
        by simp
      from Cons.IH [OF Cons.prems(1) this, of "k + 1" "e + (usec npe + 20000)"]
      show ?thesis using True same lt Cons.prems(1)
        by (auto simp: algebra_simps)
    qed
  qed
qed

lemma adjust_outbound_same_face:
  assumes "ob \<noteq> []"
    and "\<forall>p\<in>set (map snd (propagating_list h npe)).
           similar_interest msg pi p \<longrightarrow> pe_faceid p = faceid face"
  shows "adjust_outbound_for_existing_interests h face msg pi npe ob =
     (let k = length (filter (similar_interest msg pi) (map snd (propagating_list h npe))) in
      if k = 0 then (0, ob)
      else if flags face AND (CCN_FACE_MCAST OR CCN_FACE_LINK) \<noteq> 0 then (0, [])
      else if k < 3 then (of_nat k * (usec npe + 20000), ob)
      else (0, []))"
proof (cases "propagating_head npe")
  case None
  then show ?thesis
    by (simp add: adjust_outbound_for_existing_interests_def propagating_list_def)
next
  case (Some a)
  then show ?thesis
    using adjust_loop_same_face [OF assms, of h npe _ 0 0]
    by (auto simp: adjust_outbound_for_existing_interests_def Let_def)
qed

text \<open>
  Claim C7, as amended.  Let a new Interest with a non-empty outbound set arrive from a
  face, and let all the propagating interests of its prefix that match it in everything
  but the Nonce (and have lifetime left) come from that same face; let \<open>k\<close> be their
  number.  On a multicast or link face no redundant copy is allowed: for \<open>k \<ge> 1\<close> the
  outbound set is emptied and the extra delay is zero.  On any other face one or two such
  interests leave the outbound set as it is, each adding \<open>npe.usec\<close> + 20 ms to the delay;
  more than three empty the outbound set with zero extra delay.
\<close>

theorem adjust_outbound_redundant_copies:
  assumes "ob \<noteq> []"
    and "\<forall>p\<in>set (map snd (propagating_list h npe)).
           similar_interest msg pi p \<longrightarrow> pe_faceid p = faceid face"
  shows "let k = length (filter (similar_interest msg pi) (map snd (propagating_list h npe))) in
     (flags face AND (CCN_FACE_MCAST OR CCN_FACE_LINK) \<noteq> 0 \<and> 1 \<le> k \<longrightarrow>
        adjust_outbound_for_existing_interests h face msg pi npe ob = (0, [])) \<and>
     (flags face AND (CCN_FACE_MCAST OR CCN_FACE_LINK) = 0 \<and> 1 \<le> k \<and> k \<le> 2 \<longrightarrow>
        adjust_outbound_for_existing_interests h face msg pi npe ob =
          (of_nat k * (usec npe + 20000), ob)) \<and>
     (flags face AND (CCN_FACE_MCAST OR CCN_FACE_LINK) = 0 \<and> 3 < k \<longrightarrow>
        adjust_outbound_for_existing_interests h face msg pi npe ob = (0, []))"
  using adjust_outbound_same_face [OF assms] by (simp add: Let_def)

theorem adjust_outbound_redundant_copies_witness:
  "map_of (nameprefix_tab example_pit) [[97], [98], [99]] = Some example_npe \<and>
   face_from_faceid example_pit 2 =
     Some ((example_face 2 (CCN_FACE_GG OR CCN_FACE_LOCAL))\<lparr>pending_interests := 1\<rparr>) \<and>
   map (similar_interest (example_msg 8) example_pi)
     (map snd (propagating_list example_pit example_npe)) = [True] \<and>
   map pe_faceid (map snd (propagating_list example_pit example_npe)) = [2] \<and>
   adjust_outbound_for_existing_interests example_pit
     ((example_face 2 (CCN_FACE_GG OR CCN_FACE_LOCAL))\<lparr>pending_interests := 1\<rparr>)
     (example_msg 8) example_pi example_npe [1] = (32150, [1])"
proof -
  have l: "map snd (propagating_list example_pit example_npe) =
      [\<lparr>outbound = Some [1], interest_msg = Some (example_msg 7), pe_size = 14,
            pe_flags = 0, pe_faceid = 2, pe_usec = 3998905\<rparr>]"
    by (simp add: example_pit_val propagating_list_def List.map_filter_def example_vals)
  have s: "similar_interest (example_msg 8) example_pi
      \<lparr>outbound = Some [1], interest_msg = Some (example_msg 7), pe_size = 14,
            pe_flags = 0, pe_faceid = 2, pe_usec = 3998905\<rparr>"
    by (simp add: similar_interest_def example_vals)
  have t: "map_of (nameprefix_tab example_pit) [[97], [98], [99]] = Some example_npe"
    by (simp add: example_pit_val example_vals)
  have f: "face_from_faceid example_pit 2 =
     Some ((example_face 2 (CCN_FACE_GG OR CCN_FACE_LOCAL))\<lparr>pending_interests := 1\<rparr>)"
    by (simp add: example_pit_val example_vals face_from_faceid_def MAXFACES_def FACESLOTBITS_def)
  have "adjust_outbound_for_existing_interests example_pit
     ((example_face 2 (CCN_FACE_GG OR CCN_FACE_LOCAL))\<lparr>pending_interests := 1\<rparr>)
     (example_msg 8) example_pi example_npe [1] = (32150, [1])"
    using adjust_outbound_redundant_copies [of "[1]" example_pit example_npe "example_msg 8"
        example_pi "(example_face 2 (CCN_FACE_GG OR CCN_FACE_LOCAL))\<lparr>pending_interests := 1\<rparr>"]
    by (simp add: l s) (simp add: example_vals)
  with l s t f show ?thesis by simp
qed

theorem adjust_outbound_link_face_counterexample:
  "map_of (nameprefix_tab example_pit_link) [[97], [98], [99]] = Some example_npe \<and>
   face_from_faceid example_pit_link 3 =
     Some ((example_face 3 (CCN_FACE_LINK OR CCN_FACE_DGRAM OR CCN_FACE_INET))
             \<lparr>pending_interests := 1\<rparr>) \<and>
   map (similar_interest (example_msg 8) example_pi)
     (map snd (propagating_list example_pit_link example_npe)) = [True] \<and>
   map pe_faceid (map snd (propagating_list example_pit_link example_npe)) = [3] \<and>
   adjust_outbound_for_existing_interests example_pit_link
     ((example_face 3 (CCN_FACE_LINK OR CCN_FACE_DGRAM OR CCN_FACE_INET))\<lparr>pending_interests := 1\<rparr>)
     (example_msg 8) example_pi example_npe [1] = (0, [])"
proof -
  have l: "map snd (propagating_list example_pit_link example_npe) =
      [\<lparr>outbound = Some [1], interest_msg = Some (example_msg 7), pe_size = 14,
            pe_flags = 0, pe_faceid = 3, pe_usec = 3998905\<rparr>]"
    by (simp add: example_pit_link_val propagating_list_def List.map_filter_def example_vals)
  have s: "similar_interest (example_msg 8) example_pi
      \<lparr>outbound = Some [1], interest_msg = Some (example_msg 7), pe_size = 14,
            pe_flags = 0, pe_faceid = 3, pe_usec = 3998905\<rparr>"
    by (simp add: similar_interest_def example_vals)
  have t: "map_of (nameprefix_tab example_pit_link) [[97], [98], [99]] = Some example_npe"
    by (simp add: example_pit_link_val example_vals)
  have f: "face_from_faceid example_pit_link 3 =
     Some ((example_face 3 (CCN_FACE_LINK OR CCN_FACE_DGRAM OR CCN_FACE_INET))
             \<lparr>pending_interests := 1\<rparr>)"
    by (simp add: example_pit_link_val example_vals face_from_faceid_def MAXFACES_def
        FACESLOTBITS_def)
  have "adjust_outbound_for_existing_interests example_pit_link
     ((example_face 3 (CCN_FACE_LINK OR CCN_FACE_DGRAM OR CCN_FACE_INET))\<lparr>pending_interests := 1\<rparr>)
     (example_msg 8) example_pi example_npe [1] = (0, [])"
  proof -
    have "propagating_head example_npe \<noteq> None"
      and "flags ((example_face 3 (CCN_FACE_LINK OR CCN_FACE_DGRAM OR CCN_FACE_INET))
                \<lparr>pending_interests := 1\<rparr>) AND (CCN_FACE_MCAST OR CCN_FACE_LINK) \<noteq> 0"
      and "faceid ((example_face 3 (CCN_FACE_LINK OR CCN_FACE_DGRAM OR CCN_FACE_INET))
                \<lparr>pending_interests := 1\<rparr>) = 3"
      by (simp_all add: example_vals)
    then show ?thesis
      by (simp add: adjust_outbound_for_existing_interests_def l s)
  qed
  with l s t f show ?thesis by simp
qed

subsection \<open>Index buffers and association lists\<close>

lemma find_last_Some:
  "find_last x v = Some i \<Longrightarrow> i < length x \<and> x ! i = v"
  by (induction x arbitrary: i) (auto split: option.splits if_splits)

lemma find_last_None:
  "find_last x v = None \<Longrightarrow> v \<notin> set x"
  by (induction x) (auto split: option.splits if_splits)

lemma set_butlast_update_snoc:
  assumes "distinct (b @ [l])" "i \<le> length b"
  shows "set (butlast ((b @ [l])[i := l])) = set (b @ [l]) - {(b @ [l]) ! i}"
proof (cases "i = length b")
  case True
  with assms(1) show ?thesis by auto
next
  case False
  with assms(2) have lt: "i < length b" by simp
  from assms(1) have d: "distinct b" "l \<notin> set b" by auto
  from lt d(2) have ne: "b ! i \<noteq> l" by (auto dest: nth_mem)
  have "butlast ((b @ [l])[i := l]) = b[i := l]"
    using lt by (simp add: list_update_append1)
  moreover have "set (b[i := l]) = insert l (set b - {b ! i})"
    using d(1) lt by (simp add: set_update_distinct)
  moreover have "(b @ [l]) ! i = b ! i" using lt by (simp add: nth_append)
  ultimately show ?thesis using ne by auto
qed

lemma set_butlast_update_last:
  assumes "distinct x" "i < length x"
  shows "set (butlast (x[i := last x])) = set x - {x ! i}"
proof -
  from assms(2) have "x \<noteq> []" by auto
  then have x: "x = butlast x @ [last x]" by simp
  have "i \<le> length (butlast x)" using assms(2) by simp
  from set_butlast_update_snoc [OF _ this, of "last x"] assms(1) x
  show ?thesis by simp
qed

lemma set_remove_element:
  "distinct x \<Longrightarrow> set (ccn_indexbuf_remove_element x v) = set x - {v}"
  by (auto simp: ccn_indexbuf_remove_element_def set_butlast_update_last
      dest: find_last_Some find_last_None split: option.splits)

lemma map_fst_map_entry:
  "map fst (AList.map_entry k g tab) = map fst tab"
  by (induction tab) auto

lemma map_of_map_entry_other:
  "k' \<noteq> k \<Longrightarrow> map_of (AList.map_entry k g tab) k' = map_of tab k'"
  by (induction tab) auto

lemma is_duplicate_flooded_dup:
  assumes "offset_B_Nonce pi < offset_E_Nonce pi"
    and "map_of (propagating_tab h)
           (take (offset_E_Nonce pi - offset_B_Nonce pi) (drop (offset_B_Nonce pi) msg)) = Some pe"
  shows "is_duplicate_flooded h msg pi fid =
     (pe_update h (take (offset_E_Nonce pi - offset_B_Nonce pi) (drop (offset_B_Nonce pi) msg))
        (\<lambda>p. case outbound p of
                None \<Rightarrow> p
              | Some ob \<Rightarrow> p\<lparr>outbound := Some (ccn_indexbuf_remove_element ob fid)\<rparr>),
      True)"
  using assms by (simp add: is_duplicate_flooded_def Let_def)

subsection \<open>More example states\<close>

lemmas cs_defs = process_incoming_content_def content_arrived_def match_interests_def
  consume_matching_interests_def digest_component_def set_content_timer_def
  CCN_DTAG_Component_def example_wire_def example_obj_def content_update_def
  CCN_CONTENT_ENTRY_SLOWSEND_def CCN_CONTENT_ENTRY_STALE_def CCN_CONTENT_ENTRY_PRECIOUS_def
  example_key_def cs_finds_def consume_def finished_propagating_def
  face_send_queue_insert_def choose_content_delay_class_def content_queue_create_def
  choose_face_delay_def randomize_content_delay_def ccn_indexbuf_member_def

lemma skiplist_depth_example: "skiplist_depth (Suc 0) 25214903928 = (1, 206026503483683)"
  by (subst skiplist_depth.simps) (simp add: CCN_SKIPLIST_MAX_DEPTH_def nrand48_def Let_def)

lemma example_cs_val:
  "example_cs = example_fib
     \<lparr>content_tab :=
        [(example_key,
          \<lparr>accession = 1, c_name = [[97], [98], [99], replicate 32 1], c_flags = 0,
            key = example_key, ext = [10, 11]\<rparr>)],
      accession_ctr := 1,
      seed := 206026503483683\<rparr>"
  by (simp add: example_cs_def cs_defs pit_defs eval_defs content_skiplist_insert_def
      skiplist_depth_example)

lemma example_pit_facts:
  "face_from_faceid example_pit 1 = Some (example_face 1 (CCN_FACE_DGRAM OR CCN_FACE_INET))"
  "map_of (propagating_tab example_pit)
     (take (offset_E_Nonce example_pi - offset_B_Nonce example_pi)
        (drop (offset_B_Nonce example_pi) (example_msg 7))) = Some example_pe"
  "take (offset_E_Nonce example_pi - offset_B_Nonce example_pi)
        (drop (offset_B_Nonce example_pi) (example_msg 7)) = nonce_element [7, 7, 7, 7, 7, 7]"
  "map fst (propagating_tab example_pit) = [nonce_element [7, 7, 7, 7, 7, 7]]"
  "interests_dropped example_pit = 0"
  by (simp_all add: example_pit_val example_pe_def example_vals face_from_faceid_def
      MAXFACES_def FACESLOTBITS_def)

lemma example_scope0_val:
  "process_incoming_interest all_match (cs_finds example_key) example_cs 2
             (example_msg 7) (Some (example_pi\<lparr>scope := 0\<rparr>)) =
   Some (example_cs
     \<lparr>faces_by_faceid := (faces_by_faceid example_cs)
        [2 := Some ((example_face 2 (CCN_FACE_GG OR CCN_FACE_LOCAL))
           \<lparr>q := [CCN_CQ_ASAP \<mapsto> \<lparr>min_usec = 1, rand_usec = 2, send_queue = [1],
                                   sender = True\<rparr>]\<rparr>)],
      nameprefix_tab := (butlast (nameprefix_tab example_cs)) @
        [([[97], [98], [99]],
          \<lparr>propagating_head = Some [], forward_to = None, forwarding = [],
            parent = Some [[97], [98]], children = 0, fgen = 0, src = - 1, osrc = - 1,
            usec = 12150\<rparr>)],
      propagating_tab :=
        [(nonce_element [7, 7, 7, 7, 7, 7],
          \<lparr>outbound = None, interest_msg = None, pe_size = 14, pe_flags = 0, pe_faceid = 2,
            pe_usec = 0\<rparr>)],
      sched :=
        [\<lparr>ev_usec = 4000000, ev_action = Do_propagate (nonce_element [7, 7, 7, 7, 7, 7]),
           ev_int = 12150\<rparr>,
         \<lparr>ev_usec = 3, ev_action = Content_sender 2 CCN_CQ_ASAP, ev_int = 2\<rparr>],
      interests_accepted := 1\<rparr>)"
  by (simp add: example_cs_val example_vals cs_defs pit_defs eval_defs)

lemma example_scope0_eq:
  "process_incoming_interest all_match (cs_finds example_key) example_cs 2
     (example_msg 7) (Some (example_pi\<lparr>scope := 0\<rparr>)) = Some example_scope0"
  unfolding example_scope0_def example_scope0_val by simp

subsection \<open>Duplicate nonces\<close>

text \<open>
  Claim C1, as amended.  Let an Interest that parses arrive from a live face with a Nonce
  that keys an entry of the pending interest table.  Then no entry is created, nothing is
  scheduled and no face changes, so no pending interest counter grows.  If moreover the
  Interest passes the scope check (its scope is absent or at least 2, or the face is
  friendly), it is counted as dropped, the id of the arriving face leaves the outbound set
  of that entry, and nothing else changes in the table.
\<close>

theorem process_incoming_interest_duplicate:
  assumes face: "face_from_faceid h fid = Some face"
    and len: "length msg \<le> 65535"
    and nonce: "offset_B_Nonce pi < offset_E_Nonce pi"
    and pe: "map_of (propagating_tab h)
           (take (offset_E_Nonce pi - offset_B_Nonce pi) (drop (offset_B_Nonce pi) msg)) = Some pe"
  shows "\<exists>h'. process_incoming_interest matches cs_walk h fid msg (Some pi) = Some h' \<and>
           map fst (propagating_tab h') = map fst (propagating_tab h) \<and>
           sched h' = sched h \<and>
           faces_by_faceid h' = faces_by_faceid h \<and>
           (\<not> (0 \<le> scope pi \<and> scope pi < 2 \<and> flags face AND CCN_FACE_GG = 0) \<longrightarrow>
              interests_dropped h' = interests_dropped h + 1 \<and>
              interests_accepted h' = interests_accepted h \<and>
              (\<forall>n. n \<noteq> take (offset_E_Nonce pi - offset_B_Nonce pi) (drop (offset_B_Nonce pi) msg) \<longrightarrow>
                     map_of (propagating_tab h') n = map_of (propagating_tab h) n) \<and>
              (\<exists>pe'. map_of (propagating_tab h')
                        (take (offset_E_Nonce pi - offset_B_Nonce pi) (drop (offset_B_Nonce pi) msg)) =
                        Some pe' \<and>
                     pe' = pe\<lparr>outbound := outbound pe'\<rparr> \<and>
                     (case outbound pe of
                        None \<Rightarrow> outbound pe' = None
                      | Some ob \<Rightarrow>
                          (\<exists>ob'. outbound pe' = Some ob' \<and>
                             (distinct ob \<longrightarrow> set ob' = set ob - {fid})))))"
proof (cases "0 \<le> scope pi \<and> scope pi < 2 \<and> flags face AND CCN_FACE_GG = 0")
  case True
  then have "process_incoming_interest matches cs_walk h fid msg (Some pi) =
      Some (ccnd_msg h ''interest_outofscope'')"
    using face len by (simp add: process_incoming_interest_def)
  with True show ?thesis by (simp add: ccnd_msg_def)
next
  case False
  let ?n = "take (offset_E_Nonce pi - offset_B_Nonce pi) (drop (offset_B_Nonce pi) msg)"
  let ?g = "\<lambda>p. case outbound p of
                None \<Rightarrow> p
              | Some ob \<Rightarrow> p\<lparr>outbound := Some (ccn_indexbuf_remove_element ob fid)\<rparr>"
  let ?h' = "(pe_update h ?n ?g)\<lparr>interests_dropped := interests_dropped (pe_update h ?n ?g) + 1\<rparr>"
  have fid: "faceid face = fid" by (rule face_from_faceid_Some [OF face])
  have r: "process_incoming_interest matches cs_walk h fid msg (Some pi) = Some ?h'"
    using face len False is_duplicate_flooded_dup [OF nonce pe, of fid]
    by (auto simp: process_incoming_interest_def fid)
  have "map_of (propagating_tab ?h') ?n = Some (?g pe)"
    by (simp add: pe_update_def map_of_map_entry_same pe)
  moreover have "?g pe = pe\<lparr>outbound := outbound (?g pe)\<rparr>"
    by (cases "outbound pe") simp_all
  moreover have "case outbound pe of
                        None \<Rightarrow> outbound (?g pe) = None
                      | Some ob \<Rightarrow>
                          (\<exists>ob'. outbound (?g pe) = Some ob' \<and>
                             (distinct ob \<longrightarrow> set ob' = set ob - {fid}))"
    by (cases "outbound pe") (simp_all add: set_remove_element)
  ultimately show ?thesis
    unfolding r using False
    by (auto simp: pe_update_def map_fst_map_entry map_of_map_entry_other)
qed

theorem process_incoming_interest_duplicate_witness:
  "\<exists>h' pe'. process_incoming_interest all_match no_cs example_pit 1 (example_msg 7)
               (Some example_pi) = Some h' \<and>
     map fst (propagating_tab h') = [nonce_element [7, 7, 7, 7, 7, 7]] \<and>
     sched h' = sched example_pit \<and>
     faces_by_faceid h' = faces_by_faceid example_pit \<and>
     interests_dropped h' = 1 \<and>
     map_of (propagating_tab example_pit) (nonce_element [7, 7, 7, 7, 7, 7]) = Some example_pe \<and>
     outbound example_pe = Some [1] \<and>
     map_of (propagating_tab h') (nonce_element [7, 7, 7, 7, 7, 7]) = Some pe' \<and>
     outbound pe' = Some []"
proof -
  have len: "length (example_msg 7) \<le> 65535"
    and nonce: "offset_B_Nonce example_pi < offset_E_Nonce example_pi"
    and sc: "\<not> (0 \<le> scope example_pi \<and> scope example_pi < 2 \<and>
               flags (example_face 1 (CCN_FACE_DGRAM OR CCN_FACE_INET)) AND CCN_FACE_GG = 0)"
    by (simp_all add: example_vals)
  have m: "map_of (propagating_tab example_pit) (nonce_element [7, 7, 7, 7, 7, 7]) = Some example_pe"
    using example_pit_facts(2) unfolding example_pit_facts(3) .
  from process_incoming_interest_duplicate [OF example_pit_facts(1) len nonce example_pit_facts(2),
      of all_match no_cs] sc m
  show ?thesis
    unfolding example_pit_facts by (auto simp: example_pe_def)
qed

theorem process_incoming_interest_duplicate_counterexample:
  "face_from_faceid example_pit 1 = Some (example_face 1 (CCN_FACE_DGRAM OR CCN_FACE_INET)) \<and>
   map_of (propagating_tab example_pit) (nonce_element [7, 7, 7, 7, 7, 7]) = Some example_pe \<and>
   interest_msg example_pe = Some (example_msg 7) \<and>
   outbound example_pe = Some [1] \<and>
   process_incoming_interest all_match no_cs example_pit 1 (example_msg 7)
     (Some (example_pi\<lparr>scope := 1\<rparr>)) =
     Some (example_pit\<lparr>log := [''interest_outofscope'']\<rparr>) \<and>
   map_of (propagating_tab (example_pit\<lparr>log := [''interest_outofscope'']\<rparr>))
     (nonce_element [7, 7, 7, 7, 7, 7]) = Some example_pe"
proof -
  have "process_incoming_interest all_match no_cs example_pit 1 (example_msg 7)
     (Some (example_pi\<lparr>scope := 1\<rparr>)) =
     Some (example_pit\<lparr>log := [''interest_outofscope'']\<rparr>)"
    by (simp add: process_incoming_interest_def example_pit_facts(1) ccnd_msg_def)
       (simp add: example_vals example_pit_val)
  moreover have "map_of (propagating_tab example_pit) (nonce_element [7, 7, 7, 7, 7, 7]) =
      Some example_pe"
    using example_pit_facts(2) unfolding example_pit_facts(3) .
  ultimately show ?thesis
    using example_pit_facts(1) by (simp add: example_pe_def)
qed

subsection \<open>The scope check\<close>

text \<open>
  Claim C2, as amended.  An Interest with scope 0 or scope 1 that arrives on a face without
  the GG flag is rejected: the only effect is the line \<open>interest_outofscope\<close> in the log,
  whatever the content store holds (the result does not depend on the search of the
  content store), so no entry of the pending interest table is created and nothing is
  scheduled.
\<close>

theorem process_incoming_interest_outofscope:
  assumes "face_from_faceid h fid = Some face"
    and "flags face AND CCN_FACE_GG = 0"
    and "length msg \<le> 65535"
    and "scope pi = 0 \<or> scope pi = 1"
  shows "process_incoming_interest matches cs_walk h fid msg (Some pi) =
           Some (h\<lparr>log := log h @ [''interest_outofscope'']\<rparr>)"
  using assms by (auto simp: process_incoming_interest_def ccnd_msg_def)

theorem process_incoming_interest_outofscope_witness:
  "face_from_faceid example_fib 1 = Some (example_face 1 (CCN_FACE_DGRAM OR CCN_FACE_INET)) \<and>
   flags (example_face 1 (CCN_FACE_DGRAM OR CCN_FACE_INET)) AND CCN_FACE_GG = 0 \<and>
   scope (example_pi\<lparr>scope := 1\<rparr>) = 1 \<and>
   process_incoming_interest all_match (cs_finds example_key) example_fib 1 (example_msg 7)
     (Some (example_pi\<lparr>scope := 1\<rparr>)) =
     Some (example_fib\<lparr>log := log example_fib @ [''interest_outofscope'']\<rparr>)"
proof -
  have f: "face_from_faceid example_fib 1 = Some (example_face 1 (CCN_FACE_DGRAM OR CCN_FACE_INET))"
    by (simp add: example_vals face_from_faceid_def MAXFACES_def FACESLOTBITS_def)
  have g: "flags (example_face 1 (CCN_FACE_DGRAM OR CCN_FACE_INET)) AND CCN_FACE_GG = 0"
    and l: "length (example_msg 7) \<le> 65535"
    and s: "scope (example_pi\<lparr>scope := 1\<rparr>) = 0 \<or> scope (example_pi\<lparr>scope := 1\<rparr>) = 1"
    by (simp_all add: example_vals)
  from process_incoming_interest_outofscope [OF f g l s, of all_match "cs_finds example_key"] f g
  show ?thesis by simp
qed

theorem process_incoming_interest_scope0_counterexample:
  "face_from_faceid example_cs 2 = Some (example_face 2 (CCN_FACE_GG OR CCN_FACE_LOCAL)) \<and>
   scope (example_pi\<lparr>scope := 0\<rparr>) = 0 \<and>
   propagating_tab example_cs = [] \<and>
   sched example_cs = [] \<and>
   process_incoming_interest all_match (cs_finds example_key) example_cs 2
     (example_msg 7) (Some (example_pi\<lparr>scope := 0\<rparr>)) = Some example_scope0 \<and>
   log example_scope0 = [] \<and>
   interests_accepted example_scope0 = 1 \<and>
   map fst (propagating_tab example_scope0) = [nonce_element [7, 7, 7, 7, 7, 7]] \<and>
   map ev_action (sched example_scope0) =
     [Do_propagate (nonce_element [7, 7, 7, 7, 7, 7]), Content_sender 2 CCN_CQ_ASAP]"
proof -
  have "face_from_faceid example_cs 2 = Some (example_face 2 (CCN_FACE_GG OR CCN_FACE_LOCAL))"
    by (simp add: example_cs_val example_vals face_from_faceid_def MAXFACES_def FACESLOTBITS_def)
  moreover have "propagating_tab example_cs = [] \<and> sched example_cs = []"
    by (simp add: example_cs_val example_vals)
  moreover have "log example_scope0 = [] \<and> interests_accepted example_scope0 = 1 \<and>
      map fst (propagating_tab example_scope0) = [nonce_element [7, 7, 7, 7, 7, 7]] \<and>
      map ev_action (sched example_scope0) =
        [Do_propagate (nonce_element [7, 7, 7, 7, 7, 7]), Content_sender 2 CCN_CQ_ASAP]"
    unfolding example_scope0_def example_scope0_val
    by (simp add: example_cs_val example_vals)
  ultimately show ?thesis
    using example_scope0_eq by simp
qed

subsection \<open>Synthesized nonces\<close>

lemma nonce_element_6:
  "nonce_element [a, b, c, d, e, f] = [2, 202, 181, a, b, c, d, e, f, 0]"
  by (simp add: nonce_element_def ccn_charbuf_append_tt_def CCN_DTAG_def CCN_BLOB_def
      CCN_DTAG_Nonce_def CCN_CLOSE_def)

lemma random_nonce_6:
  assumes "s1 = (25214903917 * sd + 11) mod 2 ^ 48"
    and "s2 = (25214903917 * s1 + 11) mod 2 ^ 48"
    and "s3 = (25214903917 * s2 + 11) mod 2 ^ 48"
    and "s4 = (25214903917 * s3 + 11) mod 2 ^ 48"
    and "s5 = (25214903917 * s4 + 11) mod 2 ^ 48"
    and "s6 = (25214903917 * s5 + 11) mod 2 ^ 48"
  shows "random_nonce 6 sd =
    ([word_of_nat (s1 div 2 ^ 17), word_of_nat (s2 div 2 ^ 17 div 2),
      word_of_nat (s3 div 2 ^ 17 div 4), word_of_nat (s4 div 2 ^ 17 div 8),
      word_of_nat (s5 div 2 ^ 17 div 16), word_of_nat (s6 div 2 ^ 17 div 32)], s6)"
proof -
  have n: "nrand48 sd = (s1 div 2 ^ 17, s1)" "nrand48 s1 = (s2 div 2 ^ 17, s2)"
    "nrand48 s2 = (s3 div 2 ^ 17, s3)" "nrand48 s3 = (s4 div 2 ^ 17, s4)"
    "nrand48 s4 = (s5 div 2 ^ 17, s5)" "nrand48 s5 = (s6 div 2 ^ 17, s6)"
    unfolding assms nrand48_def Let_def by (rule refl)+
  show ?thesis
    by (simp add: random_nonce_def upt_rec Let_def n drop_bit_eq_div)
qed

lemma example_collide_val:
  "example_collide = example_fib
     \<lparr>faces_by_faceid := (faces_by_faceid example_fib)
        [2 := Some ((example_face 2 (CCN_FACE_GG OR CCN_FACE_LOCAL))\<lparr>pending_interests := 1\<rparr>)],
      nameprefix_tab := (butlast (nameprefix_tab example_fib)) @
        [([[97], [98], [99]],
          example_npe\<lparr>propagating_head := Some [[2, 202, 181, 172, 188, 244, 139, 131, 143, 0]]\<rparr>)],
      propagating_tab :=
        [([2, 202, 181, 172, 188, 244, 139, 131, 143, 0],
          \<lparr>outbound = Some [1], interest_msg = Some example_msgA, pe_size = 14,
            pe_flags = 0, pe_faceid = 2, pe_usec = 3998905\<rparr>)],
      sched := [\<lparr>ev_usec = 1095,
                 ev_action = Do_propagate [2, 202, 181, 172, 188, 244, 139, 131, 143, 0],
                 ev_int = 12150\<rparr>],
      seed := 206026503483683,
      interests_accepted := 1\<rparr>"
  by (simp add: example_collide_def example_msgA_def example_fib_val example_handle_def
      example_face_def
      example_npe_def pit_defs face_from_faceid_def MAXFACES_def FACESLOTBITS_def face_flag_defs
      forw_flag_defs nameprefix_seek_def nameprefix_seek_step_def npe_update_def nrand48_def
      Let_def upt_rec)

text \<open>
  Claim C6, as amended.  For an Interest without a Nonce \<open>propagate_interest\<close> makes a
  Nonce element of six bytes drawn from \<open>nrand48\<close>: with \<open>s1\<close> to \<open>s6\<close> the next six
  states of the 48-bit linear congruential generator, byte \<open>i\<close> is the low byte of the
  draw \<open>si div 2 ^ 17\<close> shifted right by \<open>i - 1\<close> bits, and the element is the header
  \<open>2, 202, 181\<close>, the six bytes and the closer \<open>0\<close>.  When that element is not yet a key
  of the pending interest table, a new entry is created under it for the message with the
  Nonce spliced in, and its lifetime is \<open>CCN_INTEREST_LIFETIME_MICROSEC\<close>, four seconds:
  the time left in the entry and the delay of the first \<open>do_propagate\<close> event add up to
  4000000 microseconds.
\<close>

theorem propagate_interest_synthesized_nonce:
  assumes "offset_B_Nonce pi = offset_E_Nonce pi"
    and "map_of (nameprefix_tab h) k = Some npe"
    and "s1 = (25214903917 * seed h + 11) mod 2 ^ 48"
    and "s2 = (25214903917 * s1 + 11) mod 2 ^ 48"
    and "s3 = (25214903917 * s2 + 11) mod 2 ^ 48"
    and "s4 = (25214903917 * s3 + 11) mod 2 ^ 48"
    and "s5 = (25214903917 * s4 + 11) mod 2 ^ 48"
    and "s6 = (25214903917 * s5 + 11) mod 2 ^ 48"
    and "s = [word_of_nat (s1 div 2 ^ 17), word_of_nat (s2 div 2 ^ 17 div 2),
              word_of_nat (s3 div 2 ^ 17 div 4), word_of_nat (s4 div 2 ^ 17 div 8),
              word_of_nat (s5 div 2 ^ 17 div 16), word_of_nat (s6 div 2 ^ 17 div 32)]"
    and "nonce = [2, 202, 181] @ s @ [0]"
    and "map_of (propagating_tab h) nonce = None"
  shows "random_nonce 6 (seed h) = (s, s6) \<and>
     nonce_element s = nonce \<and>
     (\<exists>h' pe ev. propagate_interest h face msg pi k ob = Some (h', 0) \<and>
        propagating_tab h' = propagating_tab h @ [(nonce, pe)] \<and>
        interest_msg pe =
          Some (take (offset_B_Nonce pi) msg @ nonce @
                drop (offset_B_OTHER pi) (take (offset_E pi) msg)) \<and>
        pe_faceid pe = faceid face \<and>
        sched h' = sched h @ [ev] \<and>
        ev_action ev = Do_propagate nonce \<and>
        pe_usec pe + ev_usec ev = 4000000 \<and>
        (seed h' = s6 \<or> seed h' = (25214903917 * s6 + 11) mod 2 ^ 48))"
proof -
  have r: "random_nonce 6 (seed h) = (s, s6)"
    unfolding assms(9) by (rule random_nonce_6 [OF assms(3-8)])
  have n: "nonce_element s = nonce"
    unfolding assms(9,10) by (simp add: nonce_element_6)
  have d: "snd (nrand48 s6) = (25214903917 * s6 + 11) mod 2 ^ 48"
    by (simp add: nrand48_def Let_def)
  have "\<exists>h' pe ev. propagate_interest h face msg pi k ob = Some (h', 0) \<and>
        propagating_tab h' = propagating_tab h @ [(nonce, pe)] \<and>
        interest_msg pe =
          Some (take (offset_B_Nonce pi) msg @ nonce @
                drop (offset_B_OTHER pi) (take (offset_E pi) msg)) \<and>
        pe_faceid pe = faceid face \<and>
        sched h' = sched h @ [ev] \<and>
        ev_action ev = Do_propagate nonce \<and>
        pe_usec pe + ev_usec ev = 4000000 \<and>
        (seed h' = s6 \<or> seed h' = (25214903917 * s6 + 11) mod 2 ^ 48)"
    using assms(1,2,11)
    by (simp add: propagate_interest_def r n Let_def pe_next_usec_def d
        link_propagating_interest_to_nameprefix_def npe_update_def face_update_def
        CCN_INTEREST_LIFETIME_MICROSEC_def split: option.splits)
  with r n show ?thesis by blast
qed

theorem propagate_interest_synthesized_nonce_witness:
  "offset_B_Nonce example_pi0 = offset_E_Nonce example_pi0 \<and>
   seed example_fib = 25214903928 \<and>
   random_nonce 6 (seed example_fib) = ([70, 86, 94, 250, 69, 65], 87262199322646) \<and>
   nonce_element [70, 86, 94, 250, 69, 65] = [2, 202, 181, 70, 86, 94, 250, 69, 65, 0] \<and>
   map_of (propagating_tab example_fib) [2, 202, 181, 70, 86, 94, 250, 69, 65, 0] = None \<and>
   (\<exists>h' pe ev. propagate_interest example_fib (example_face 2 (CCN_FACE_GG OR CCN_FACE_LOCAL))
                  example_msg0 example_pi0 [[97], [98], [99]] (Some [1]) = Some (h', 0) \<and>
      propagating_tab h' = [([2, 202, 181, 70, 86, 94, 250, 69, 65, 0], pe)] \<and>
      interest_msg pe = Some [1, 2, 3, 2, 202, 181, 70, 86, 94, 250, 69, 65, 0, 0] \<and>
      pe_faceid pe = 2 \<and>
      sched h' = [ev] \<and>
      ev_action ev = Do_propagate [2, 202, 181, 70, 86, 94, 250, 69, 65, 0] \<and>
      pe_usec pe + ev_usec ev = 4000000)"
proof -
  have sd: "seed example_fib = 25214903928"
    by (simp add: example_vals)
  have a: "offset_B_Nonce example_pi0 = offset_E_Nonce example_pi0"
    by (simp add: example_pi0_def example_pi_def)
  have t: "map_of (nameprefix_tab example_fib) [[97], [98], [99]] = Some
     \<lparr>propagating_head = None, forward_to = None, forwarding = [],
            parent = Some [[97], [98]], children = 0, fgen = 0, src = - 1, osrc = - 1,
            usec = 12150\<rparr>"
    and p: "propagating_tab example_fib = []" "sched example_fib = []"
    by (simp_all add: example_vals)
  have s: "(206026503483683::nat) = (25214903917 * seed example_fib + 11) mod 2 ^ 48"
    "(245470556921330::nat) = (25214903917 * 206026503483683 + 11) mod 2 ^ 48"
    "(105707381795861::nat) = (25214903917 * 245470556921330 + 11) mod 2 ^ 48"
    "(223576932655868::nat) = (25214903917 * 105707381795861 + 11) mod 2 ^ 48"
    "(102497929776471::nat) = (25214903917 * 223576932655868 + 11) mod 2 ^ 48"
    "(87262199322646::nat) = (25214903917 * 102497929776471 + 11) mod 2 ^ 48"
    unfolding sd by simp_all
  have b: "([70, 86, 94, 250, 69, 65] :: bytes) =
     [word_of_nat ((206026503483683::nat) div 2 ^ 17),
      word_of_nat ((245470556921330::nat) div 2 ^ 17 div 2),
      word_of_nat ((105707381795861::nat) div 2 ^ 17 div 4),
      word_of_nat ((223576932655868::nat) div 2 ^ 17 div 8),
      word_of_nat ((102497929776471::nat) div 2 ^ 17 div 16),
      word_of_nat ((87262199322646::nat) div 2 ^ 17 div 32)]"
    by simp
  have n: "([2, 202, 181, 70, 86, 94, 250, 69, 65, 0] :: bytes) =
     [2, 202, 181] @ [70, 86, 94, 250, 69, 65] @ [0]"
    by simp
  have m: "map_of (propagating_tab example_fib) [2, 202, 181, 70, 86, 94, 250, 69, 65, 0] = None"
    by (simp add: p)
  note th = propagate_interest_synthesized_nonce [where
      face = "example_face 2 (CCN_FACE_GG OR CCN_FACE_LOCAL)" and msg = example_msg0
      and ob = "Some [1]", OF a t s b n m]
  from th sd a m show ?thesis
    unfolding p
    by (simp add: example_pi0_def example_pi_def example_msg0_def example_face_def) blast
qed

text \<open>
  The claim without the condition on the table fails.  In \<open>example_collide\<close> the pending
  Interest from face 2 carries the Nonce that the generator yields next.  An Interest
  without a Nonce that arrives from face 0 is accepted, the Nonce made for it is that key,
  and \<open>propagate_interest\<close> returns -1: the table holds the entry of face 2 as before, no
  entry is created and nothing is scheduled.
\<close>

theorem propagate_interest_nonce_collision_counterexample:
  "offset_B_Nonce example_pi0 = offset_E_Nonce example_pi0 \<and>
   random_nonce 6 (seed example_collide) =
     ([172, 188, 244, 139, 131, 143], 266094224901481) \<and>
   nonce_element [172, 188, 244, 139, 131, 143] =
     [2, 202, 181, 172, 188, 244, 139, 131, 143, 0] \<and>
   propagating_tab example_collide =
     [([2, 202, 181, 172, 188, 244, 139, 131, 143, 0],
       \<lparr>outbound = Some [1], interest_msg = Some example_msgA, pe_size = 14,
         pe_flags = 0, pe_faceid = 2, pe_usec = 3998905\<rparr>)] \<and>
   interests_accepted example_collide = 1 \<and>
   log example_collide = [] \<and>
   process_incoming_interest all_match no_cs example_collide 0 example_msg0
     (Some example_pi0) =
     Some (example_collide
       \<lparr>seed := 266094224901481, interests_accepted := 2,
        log := [''Interesting - this shouldn't happen much'']\<rparr>) \<and>
   propagate_interest example_collide (example_face 0 (CCN_FACE_GG OR CCN_FACE_LOCAL))
     example_msg0 example_pi0 [[97], [98], [99]] (Some [1]) =
     Some (example_collide
       \<lparr>seed := 266094224901481,
        log := [''Interesting - this shouldn't happen much'']\<rparr>, - 1)"
proof -
  have r: "random_nonce 6 206026503483683 =
     ([172, 188, 244, 139, 131, 143], 266094224901481)"
    by (simp add: random_nonce_def nrand48_def upt_rec Let_def drop_bit_eq_div)
  have 1: "offset_B_Nonce example_pi0 = offset_E_Nonce example_pi0"
    by (simp add: example_pi0_def example_pi_def)
  have 2: "random_nonce 6 (seed example_collide) =
     ([172, 188, 244, 139, 131, 143], 266094224901481)"
    by (simp add: example_collide_val r)
  have 3: "propagating_tab example_collide =
     [([2, 202, 181, 172, 188, 244, 139, 131, 143, 0],
       \<lparr>outbound = Some [1], interest_msg = Some example_msgA, pe_size = 14,
         pe_flags = 0, pe_faceid = 2, pe_usec = 3998905\<rparr>)]"
    "interests_accepted example_collide = 1" "log example_collide = []"
    by (simp_all add: example_collide_val example_vals)
  have 4: "process_incoming_interest all_match no_cs example_collide 0 example_msg0
     (Some example_pi0) =
     Some (example_collide
       \<lparr>seed := 266094224901481, interests_accepted := 2,
        log := [''Interesting - this shouldn't happen much'']\<rparr>)"
    by (simp add: example_collide_val example_msgA_def example_msg0_def example_pi0_def
        example_vals pit_defs r face_from_faceid_def MAXFACES_def FACESLOTBITS_def
        forw_flag_defs nameprefix_seek_def nameprefix_seek_step_def npe_update_def
        ccn_indexbuf_remove_element_def Let_def upt_rec
        nrand48_def drop_bit_eq_div)
  have 5: "propagate_interest example_collide (example_face 0 (CCN_FACE_GG OR CCN_FACE_LOCAL))
     example_msg0 example_pi0 [[97], [98], [99]] (Some [1]) =
     Some (example_collide
       \<lparr>seed := 266094224901481,
        log := [''Interesting - this shouldn't happen much'']\<rparr>, - 1)"
    by (simp add: example_collide_val example_msgA_def example_msg0_def example_pi0_def
        example_vals pit_defs r face_from_faceid_def MAXFACES_def FACESLOTBITS_def
        ccn_indexbuf_remove_element_def Let_def upt_rec nrand48_def drop_bit_eq_div)
  from 1 2 3 4 5 show ?thesis
    by (simp add: nonce_element_6)
qed

subsection \<open>Name collisions in the content store\<close>

lemma map_of_delete_other:
  "k' \<noteq> k \<Longrightarrow> map_of (AList.delete k tab) k' = map_of tab k'"
  by (induction tab) auto

lemma map_of_delete_same: "map_of (AList.delete k tab) k = None"
  by (induction tab) auto

lemma example_cs_key:
  "take (co_B_Content example_obj + length (digest_component (co_digest example_obj)))
     (take (co_name_end example_obj) example_wire2 @ digest_component (co_digest example_obj) @
      drop (co_name_end example_obj) example_wire2) = example_key"
  "drop (co_B_Content example_obj + length (digest_component (co_digest example_obj)))
     (take (co_name_end example_obj) example_wire2 @ digest_component (co_digest example_obj) @
      drop (co_name_end example_obj) example_wire2) = [12, 13]"
  by (simp_all add: example_wire2_def cs_defs example_vals)

text \<open>
  Claim C9.  \<open>msg\<close> is the arriving ContentObject with the digest component spliced in
  after its name and \<open>keysize\<close> the length of its hash-table key.  When the content store
  holds an entry under the key of the arrival whose tail differs from the tail of the
  arrival, \<open>process_incoming_content\<close> logs a name collision and deletes the stored entry
  without inserting the arrival: afterwards the key is absent from the content store, every
  other entry is as before, and nothing is matched, queued or scheduled.
\<close>

theorem process_incoming_content_collision:
  assumes "co_name_end obj \<le> 65535 - 36"
    and "length (co_digest obj) = 32"
    and "msg = take (co_name_end obj) wire @ digest_component (co_digest obj) @
               drop (co_name_end obj) wire"
    and "keysize = co_B_Content obj + length (digest_component (co_digest obj))"
    and "map_of (content_tab h) (take keysize msg) = Some content"
    and "ext content \<noteq> drop keysize msg"
  shows "content_tab (process_incoming_content matches h fid wire (Some obj)) =
           AList.delete (take keysize msg) (content_tab h) \<and>
         map_of (content_tab (process_incoming_content matches h fid wire (Some obj)))
           (take keysize msg) = None \<and>
         propagating_tab (process_incoming_content matches h fid wire (Some obj)) =
           propagating_tab h \<and>
         faces_by_faceid (process_incoming_content matches h fid wire (Some obj)) =
           faces_by_faceid h \<and>
         sched (process_incoming_content matches h fid wire (Some obj)) = sched h \<and>
         ''ContentObject name collision!!!!!'' \<in>
           set (log (process_incoming_content matches h fid wire (Some obj)))"
  using assms
  by (auto simp: process_incoming_content_def Let_def ccnd_msg_def map_of_delete_same)

theorem process_incoming_content_collision_witness:
  "map_of (content_tab example_cs) example_key =
     Some \<lparr>accession = 1, c_name = [[97], [98], [99], replicate 32 1], c_flags = 0,
            key = example_key, ext = [10, 11]\<rparr> \<and>
   content_tab (process_incoming_content all_match example_cs 1 example_wire2
                  (Some example_obj)) = [] \<and>
   ''ContentObject name collision!!!!!'' \<in>
     set (log (process_incoming_content all_match example_cs 1 example_wire2
                 (Some example_obj)))"
proof -
  have a: "co_name_end example_obj \<le> 65535 - 36" "length (co_digest example_obj) = 32"
    by (simp_all add: example_obj_def)
  have c: "map_of (content_tab example_cs) example_key =
     Some \<lparr>accession = 1, c_name = [[97], [98], [99], replicate 32 1], c_flags = 0,
            key = example_key, ext = [10, 11]\<rparr>"
    and t: "content_tab example_cs = [(example_key,
          \<lparr>accession = 1, c_name = [[97], [98], [99], replicate 32 1], c_flags = 0,
            key = example_key, ext = [10, 11]\<rparr>)]"
    by (simp_all add: example_cs_val)
  have e: "ext \<lparr>accession = 1, c_name = [[97], [98], [99], replicate 32 1], c_flags = 0,
            key = example_key, ext = [10, 11]\<rparr> \<noteq> [12, 13]"
    by simp
  note th = process_incoming_content_collision [where obj = example_obj
      and wire = example_wire2 and h = example_cs and matches = all_match and fid = 1,
      OF a refl refl, unfolded example_cs_key, OF c e]
  from th c show ?thesis
    by (simp add: t)
qed

subsection \<open>Content that answered no interest\<close>

text \<open>
  Claim C5.  A ContentObject that is new to the content store, consumes no pending
  interest and arrives on a face without \<open>CCN_FACE_GG\<close> is to be stored with
  \<open>CCN_CONTENT_ENTRY_SLOWSEND\<close>, so that it is sent in the slow delay class.  In
  \<open>example_fib\<close> the content store and the pending interest table are empty and face 1 is
  a datagram face without \<open>CCN_FACE_GG\<close>; the object that arrives on it is stored with no
  flag set, and a later send to the link face 3 takes the normal delay class.
\<close>

theorem process_incoming_content_slowsend_missing:
  "face_from_faceid example_fib 1 = Some (example_face 1 (CCN_FACE_DGRAM OR CCN_FACE_INET)) \<and>
   flags (example_face 1 (CCN_FACE_DGRAM OR CCN_FACE_INET)) AND CCN_FACE_GG = 0 \<and>
   content_tab example_fib = [] \<and>
   propagating_tab example_fib = [] \<and>
   content_tab (process_incoming_content all_match example_fib 1 example_wire
                  (Some example_obj)) =
     [(example_key,
       \<lparr>accession = 1, c_name = [[97], [98], [99], replicate 32 1], c_flags = 0,
         key = example_key, ext = [10, 11]\<rparr>)] \<and>
   choose_content_delay_class
     (process_incoming_content all_match example_fib 1 example_wire (Some example_obj)) 3 0 =
     CCN_CQ_NORMAL \<and>
   choose_content_delay_class
     (process_incoming_content all_match example_fib 1 example_wire (Some example_obj)) 3
     CCN_CONTENT_ENTRY_SLOWSEND = CCN_CQ_SLOW"
proof -
  have "face_from_faceid example_fib 1 = Some (example_face 1 (CCN_FACE_DGRAM OR CCN_FACE_INET))"
    by (simp add: example_vals face_from_faceid_def MAXFACES_def FACESLOTBITS_def)
  moreover have "flags (example_face 1 (CCN_FACE_DGRAM OR CCN_FACE_INET)) AND CCN_FACE_GG = 0"
    "content_tab example_fib = []" "propagating_tab example_fib = []"
    by (simp_all add: example_vals)
  moreover have "choose_content_delay_class example_cs 3 0 = CCN_CQ_NORMAL"
    "choose_content_delay_class example_cs 3 CCN_CONTENT_ENTRY_SLOWSEND = CCN_CQ_SLOW"
    by (simp_all add: choose_content_delay_class_def example_cs_val example_vals
        face_from_faceid_def MAXFACES_def FACESLOTBITS_def CCN_CONTENT_ENTRY_SLOWSEND_def)
  ultimately show ?thesis
    unfolding example_cs_def [symmetric] by (simp add: example_cs_val)
qed

subsection \<open>Pending interest counts\<close>

text \<open>
  Claim C3.  The \<open>pending_interests\<close> counters of the faces are to add up to the number
  of live entries of the pending interest table, and the origin face of a live entry is to
  have a counter of at least 1; \<open>ccnd_collect_stats\<close> checks the sum.  In \<open>example_pit\<close> one
  Interest from face 2 is pending and the check finds nothing.  When face 2 then goes away,
  \<open>finalize_face\<close> frees its slot and leaves the entry in the table: the entry is live with
  origin 2, no face has that id, the counters add up to 0 for one live entry, and
  \<open>ccnd_collect_stats\<close> reports the inconsistency.
\<close>

theorem pending_interests_after_face_shutdown:
  "pending_interests_sum example_pit = 1 \<and>
   total_interest_counts example_pit = 1 \<and>
   ccnd_collect_stats example_pit = example_pit \<and>
   map_of (propagating_tab (finalize_face example_pit 2)) (nonce_element [7, 7, 7, 7, 7, 7]) =
     Some example_pe \<and>
   interest_msg example_pe = Some (example_msg 7) \<and>
   pe_faceid example_pe = 2 \<and>
   face_from_faceid (finalize_face example_pit 2) 2 = None \<and>
   pending_interests_sum (finalize_face example_pit 2) = 0 \<and>
   total_interest_counts (finalize_face example_pit 2) = 1 \<and>
   log (ccnd_collect_stats (finalize_face example_pit 2)) =
     [''releasing face id'', ''ccnd_collect_stats found inconsistency'']"
  by (simp add: ccnd_collect_stats_def pending_interests_sum_def total_interest_counts_def
      finalize_face_def example_pit_val example_pe_def example_vals face_from_faceid_def
      MAXFACES_def FACESLOTBITS_def ccnd_msg_def Let_def)

end
